theory Spec2Isabelle
  imports Main "HOL-Library.Sublist"
begin

section \<open>The folder-to-EXE converter: data model\<close>

text \<open>
  A shallow embedding of \<^verbatim>\<open>src/py-exe_bundler.py\<close>: the worker
  \<^verbatim>\<open>AppConverterGUI.convert_app\<close> and the provisioner
  \<^verbatim>\<open>AppConverterGUI.ensure_dependencies\<close>.

  The worker only ever writes to the relay queue, the logger and the console widget, and
  it never reads them back.  So every statement is modelled by the list of actions it
  performs, in program order, together with the way it ends: it falls through to the next
  statement, it returns from the function, or it raises.  What the outside answers (does a
  path exist, what does a directory list, does a call raise) is read from an environment
  record, one field per library function the source calls.  The only state the worker
  reads back is \<^verbatim>\<open>sys.path\<close>, which is passed in and returned.
\<close>

type_synonym path = string

text \<open>
  A raised exception, with \<^verbatim>\<open>str(e)\<close>.  \<open>Exc\<close> is an instance of
  \<^verbatim>\<open>Exception\<close>, the only class the source's handlers catch;
  \<open>BaseExc\<close> is any other \<^verbatim>\<open>BaseException\<close> (\<^verbatim>\<open>SystemExit\<close>,
  \<^verbatim>\<open>KeyboardInterrupt\<close>), which passes every \<^verbatim>\<open>except Exception\<close>.
\<close>

datatype exn = Exc string | BaseExc string

text \<open>The second component of a queue tuple: a string, an integer or \<^verbatim>\<open>None\<close>.\<close>

datatype payload = PStr string | PInt int | PNone

type_synonym event = "string \<times> payload"

datatype level = DEBUG | INFO | WARNING | ERROR

text \<open>Calls with a side effect outside the process, with their arguments.\<close>

datatype call =
    UrlRetrieve string path
  | ZipExtractall path path
  | OsRemove path
  | OsMakedirs path
  | OpenWrite path string
  | ImportPyInstaller
  | PyInstallerRun "string list"
  | ShutilRmtree path
  | WindowAfterDestroy

datatype action =
    Put event
  | Logger level string
  | Console string
  | Call call "exn option"

text \<open>A directory entry as the file system has it; \<^verbatim>\<open>os.listdir\<close> returns the names only.\<close>

datatype entry_kind = RegularFile | Directory

record env =
  os_path_exists :: "path \<Rightarrow> bool"
  os_path_join :: "path \<Rightarrow> string \<Rightarrow> path"
  os_path_basename :: "path \<Rightarrow> string"
  dir_entries :: "path \<Rightarrow> exn + (string \<times> entry_kind) list"
  os_makedirs :: "path \<Rightarrow> exn option"
  os_remove :: "path \<Rightarrow> exn option"
  shutil_rmtree :: "path \<Rightarrow> exn option"
  tempfile_gettempdir :: path
  urlretrieve :: "string \<Rightarrow> path \<Rightarrow> exn option"
  zip_extractall :: "path \<Rightarrow> path \<Rightarrow> exn option"
  open_write :: "path \<Rightarrow> string \<Rightarrow> exn option"
  import_PyInstaller :: "exn option"
  PyInstaller_run :: "string list \<Rightarrow> exn option"

definition os_listdir :: "env \<Rightarrow> path \<Rightarrow> exn + string list" where
  "os_listdir E p = (case dir_entries E p of Inl e \<Rightarrow> Inl e | Inr ents \<Rightarrow> Inr (map fst ents))"

text \<open>The fields of the GUI object that the worker reads.\<close>

record gui =
  deps_dir :: path
  source_path :: string
  output_path :: string
  window_var :: bool

record dep_info =
  pip_name :: string
  version :: string
  url :: string

definition DEPENDENCIES :: "(string \<times> dep_info) list" where
  "DEPENDENCIES =
     [(''pyinstaller'',
       \<lparr>pip_name = ''pyinstaller'', version = ''5.13.0'',
        url = ''https://files.pythonhosted.org/packages/99/6e/d7d76d4d15f6351f1f942256633b795eec3d6c691d985869df1bf319cd9d/pyinstaller-6.12.0-py3-none-win_amd64.whl''\<rparr>)]"

section \<open>Statements\<close>

text \<open>How a statement ends.\<close>

datatype outcome = Continue | Return | Raise exn

type_synonym stmt = "action list \<times> outcome"

definition emit :: "action list \<Rightarrow> stmt" where
  "emit as = (as, Continue)"

definition skip :: stmt where
  "skip = ([], Continue)"

definition do_return :: stmt where
  "do_return = ([], Return)"

definition raise_exn :: "exn \<Rightarrow> stmt" where
  "raise_exn e = ([], Raise e)"

text \<open>A call to the outside: it is recorded with its outcome, and raises if the outcome says so.\<close>

definition ext_call :: "call \<Rightarrow> exn option \<Rightarrow> stmt" where
  "ext_call c r = ([Call c r], (case r of None \<Rightarrow> Continue | Some e \<Rightarrow> Raise e))"

text \<open>Sequencing: the second statement runs only if the first falls through.\<close>

definition then_do :: "stmt \<Rightarrow> stmt \<Rightarrow> stmt" where
  "then_do m k = (case snd m of Continue \<Rightarrow> (fst m @ fst k, snd k) | _ \<Rightarrow> m)"

fun steps :: "stmt list \<Rightarrow> stmt" where
  "steps [] = skip"
| "steps (m # ms) = then_do m (steps ms)"

text \<open>
  \<^verbatim>\<open>try: body except Exception as e: handler\<close>, the handler given \<^verbatim>\<open>str(e)\<close>.  Only an
  \<open>Exc\<close> is caught; the handler may itself return or raise.
\<close>

definition try_except :: "stmt \<Rightarrow> (string \<Rightarrow> stmt) \<Rightarrow> stmt" where
  "try_except body handler =
     (case snd body of
        Raise (Exc msg) \<Rightarrow> (fst body @ fst (handler msg), snd (handler msg))
      | _ \<Rightarrow> body)"

text \<open>\<^verbatim>\<open>try: body finally: fin\<close>, for a \<open>fin\<close> that cannot raise: it runs on every way out.\<close>

definition try_finally :: "stmt \<Rightarrow> action list \<Rightarrow> stmt" where
  "try_finally body fin = (fst body @ fin, snd body)"

text \<open>\<^verbatim>\<open>self.log(message)\<close>: a debug record, then the line in the console widget.\<close>

definition self_log :: "string \<Rightarrow> action list" where
  "self_log message = [Logger DEBUG (''GUI Log: '' @ message), Console message]"

text \<open>
  \<^verbatim>\<open>str.endswith\<close> and \<^verbatim>\<open>str.strip()\<close>.  Strings are lists of 8-bit characters, read as
  the code points 0 to 255; \<open>isspace\<close> holds of the code points below 256 that Python's
  \<^verbatim>\<open>str.strip()\<close> removes: the blank, the controls 9 to 13 and 28 to 31, the next-line
  control U+0085 and the no-break space U+00A0.
\<close>

definition endswith :: "string \<Rightarrow> string \<Rightarrow> bool" where
  "endswith f suf = suffix suf f"

definition isspace :: "char \<Rightarrow> bool" where
  "isspace c = (c \<in> set [CHR 0x20, CHR 0x09, CHR 0x0A, CHR 0x0B, CHR 0x0C, CHR 0x0D,
                           CHR 0x1C, CHR 0x1D, CHR 0x1E, CHR 0x1F, CHR 0x85, CHR 0xA0])"

definition strip :: "string \<Rightarrow> string" where
  "strip x = rev (dropWhile isspace (rev (dropWhile isspace x)))"

text \<open>The events put on the queue, the outside calls and the log records of a list of actions.\<close>

fun puts :: "action list \<Rightarrow> event list" where
  "puts [] = []"
| "puts (Put ev # as) = ev # puts as"
| "puts (_ # as) = puts as"

fun calls :: "action list \<Rightarrow> (call \<times> exn option) list" where
  "calls [] = []"
| "calls (Call c r # as) = (c, r) # calls as"
| "calls (_ # as) = calls as"

fun logged :: "action list \<Rightarrow> (level \<times> string) list" where
  "logged [] = []"
| "logged (Logger l m # as) = (l, m) # logged as"
| "logged (_ # as) = logged as"

section \<open>The dependency provisioner\<close>

text \<open>The \<^verbatim>\<open>try\<close> block of \<^verbatim>\<open>ensure_dependencies\<close>: download, extract, delete the download.\<close>

definition install_try :: "env \<Rightarrow> string \<Rightarrow> dep_info \<Rightarrow> path \<Rightarrow> stmt" where
  "install_try E dep_name info dep_path =
     (let temp_file = os_path_join E (tempfile_gettempdir E) (dep_name @ ''.tar.gz'') in
      steps
       [ext_call (UrlRetrieve (url info) temp_file) (urlretrieve E (url info) temp_file),
        ext_call (ZipExtractall temp_file dep_path) (zip_extractall E temp_file dep_path),
        ext_call (OsRemove temp_file) (os_remove E temp_file),
        emit (Logger INFO (''Installed '' @ dep_name @ '' successfully'')
              # self_log (''Installed '' @ dep_name @ '' successfully''))])"

text \<open>One dependency: the check, and the installation if the path does not exist.\<close>

definition check_dep :: "env \<Rightarrow> string \<Rightarrow> dep_info \<Rightarrow> path \<Rightarrow> stmt" where
  "check_dep E dep_name info dep_path =
     steps
      [emit [Logger DEBUG (''Checking dependency: '' @ dep_name @ '' at '' @ dep_path)],
       if \<not> os_path_exists E dep_path then
         steps
          [emit (Logger INFO (''Downloading '' @ dep_name @ ''...'')
                 # self_log (''Downloading '' @ dep_name @ ''...'')),
           try_except (install_try E dep_name info dep_path)
             (\<lambda>msg. steps [emit [Logger ERROR (''Failed to install '' @ dep_name @ '': '' @ msg)],
                            raise_exn (Exc msg)])]
       else skip]"

text \<open>
  The loop over \<^verbatim>\<open>DEPENDENCIES.items()\<close>; \<open>installed\<close> is the flag
  \<^verbatim>\<open>dependencies_installed\<close> and \<open>sp\<close> is \<^verbatim>\<open>sys.path\<close>.  The result is the actions,
  the new \<^verbatim>\<open>sys.path\<close>, and the flag or the exception that left the loop.
\<close>

fun deps_loop ::
  "env \<Rightarrow> gui \<Rightarrow> (string \<times> dep_info) list \<Rightarrow> bool \<Rightarrow> path list
     \<Rightarrow> action list \<times> path list \<times> (exn + bool)" where
  "deps_loop E G [] installed sp = ([], sp, Inr installed)"
| "deps_loop E G ((dep_name, info) # rest) installed sp =
     (let dep_path = os_path_join E (deps_dir G) (dep_name @ ''-'' @ version info);
          body = check_dep E dep_name info dep_path
      in case snd body of
           Raise e \<Rightarrow> (fst body, sp, Inl e)
         | _ \<Rightarrow>
            (let added = (if dep_path \<notin> set sp
                          then [Logger DEBUG (''Added '' @ dep_path @ '' to Python path'')]
                          else []);
                 sp = (if dep_path \<notin> set sp then dep_path # sp else sp);
                 (as, sp, r) = deps_loop E G rest (installed \<or> \<not> os_path_exists E dep_path) sp
             in (fst body @ added @ as, sp, r)))"

definition ensure_dependencies ::
  "env \<Rightarrow> gui \<Rightarrow> path list \<Rightarrow> action list \<times> path list \<times> (exn + bool)" where
  "ensure_dependencies E G sp =
     (let checking = Logger INFO ''Checking dependencies...'' # self_log ''Checking dependencies...''
      in case deps_loop E G DEPENDENCIES False sp of
           (as, sp, Inl e) \<Rightarrow> (checking @ as, sp, Inl e)
         | (as, sp, Inr True) \<Rightarrow>
             (checking @ as
              @ Logger INFO ''Dependencies installed. Restarting application...''
                # self_log ''Dependencies installed. Restarting application...''
              @ [Call WindowAfterDestroy None], sp, Inr True)
         | (as, sp, Inr False) \<Rightarrow> (checking @ as, sp, Inr False))"

section \<open>The launcher stub\<close>

text \<open>
  The two templates that \<^verbatim>\<open>convert_app\<close> writes to \<^verbatim>\<open>launcher.py\<close>, line by
  line; \<open>name\<close> is \<^verbatim>\<open>os.path.basename(main_file)\<close>, pasted between the quotes
  as it is.  The text starts with a line break (the template opens right after the
  opening quotes of the literal) and every line ends with one.
\<close>

definition stub_logging_config :: "string list" where
  "stub_logging_config =
     [''logging.basicConfig(level=logging.DEBUG, '',
      ''                  filename='launcher.log','',
      ''                  format='%(asctime)s - %(levelname)s - %(message)s')'']"

definition stub_base_dir :: "string list" where
  \<open>stub_base_dir =
     [''if getattr(sys, 'frozen', False):'',
      ''    # Running in a bundle'',
      ''    base_dir = sys._MEIPASS'',
      ''    logging.debug(f"Running from frozen bundle at {base_dir}")'',
      ''else:'',
      ''    # Running in normal Python environment'',
      ''    base_dir = os.path.dirname(os.path.abspath(__file__))'',
      ''    logging.debug(f"Running from Python environment at {base_dir}")'']\<close>

definition script_launcher_lines :: "string \<Rightarrow> string list" where
  \<open>script_launcher_lines name =
     ['''', ''import os'', ''import sys'', ''import logging'', ''import runpy'', '''']
     @ stub_logging_config @ ['''']
     @ stub_base_dir @ ['''']
     @ [''script_name = "'' @ name @ ''"'',
        ''script_path = os.path.join(base_dir, script_name)'',
        ''logging.debug(f"Launching Python script: {script_path}")'',
        '''',
        ''try:'',
        ''    sys.path.insert(0, base_dir)'',
        ''    runpy.run_path(script_path)'',
        ''except Exception as e:'',
        ''    logging.error(f"Failed to launch Python script: {str(e)}")'',
        ''    raise'']\<close>

definition exe_launcher_lines :: "string \<Rightarrow> string list" where
  \<open>exe_launcher_lines name =
     ['''', ''import os'', ''import sys'', ''import subprocess'', ''import logging'', '''']
     @ stub_logging_config @ ['''']
     @ stub_base_dir @ ['''']
     @ [''exe_name = "'' @ name @ ''"'',
        ''exe_path = os.path.join(base_dir, exe_name)'',
        ''logging.debug(f"Launching executable: {exe_path}")'',
        '''',
        ''try:'',
        ''    subprocess.run([exe_path], check=True)'',
        ''except Exception as e:'',
        ''    logging.error(f"Failed to launch executable: {str(e)}")'',
        ''    raise'']\<close>

definition unlines :: "string list \<Rightarrow> string" where
  "unlines ls = concat (map (\<lambda>l. l @ ''\<newline>'') ls)"

definition launcher_text :: "bool \<Rightarrow> string \<Rightarrow> string" where
  "launcher_text is_python name =
     unlines (if is_python then script_launcher_lines name else exe_launcher_lines name)"



section \<open>The conversion pipeline\<close>

text \<open>The blocks of \<^verbatim>\<open>convert_app\<close>, in the order of the source.\<close>

text \<open>\<^verbatim>\<open>if self.ensure_dependencies(): return\<close>.\<close>

definition provision :: "env \<Rightarrow> gui \<Rightarrow> path list \<Rightarrow> stmt" where
  "provision E G sp =
     (case ensure_dependencies E G sp of
        (as, _, Inl e) \<Rightarrow> (as, Raise e)
      | (as, _, Inr True) \<Rightarrow> (as, Return)
      | (as, _, Inr False) \<Rightarrow> (as, Continue))"

text \<open>The output directory is created if it does not exist; a failure is reported here.\<close>

definition prepare_output :: "env \<Rightarrow> path \<Rightarrow> stmt" where
  "prepare_output E out =
     (if \<not> os_path_exists E out then
        try_except
          (steps [ext_call (OsMakedirs out) (os_makedirs E out),
                  emit [Logger DEBUG (''Created output directory: '' @ out),
                        Put (''log'', PStr (''Created output directory: '' @ out))]])
          (\<lambda>msg. steps [emit [Logger ERROR (''Could not create output directory: '' @ msg),
                               Put (''error'', PStr (''Could not create output directory: '' @ msg)),
                               Put (''done'', PNone)],
                         do_return])
      else skip)"

text \<open>The launcher is written with the template of the target's kind.\<close>

definition write_launcher :: "env \<Rightarrow> path \<Rightarrow> path \<Rightarrow> bool \<Rightarrow> stmt" where
  "write_launcher E temp_script main_file is_python =
     (let text = launcher_text is_python (os_path_basename E main_file) in
      try_except
        (steps [ext_call (OpenWrite temp_script text) (open_write E temp_script text),
                emit [Logger DEBUG ''Created launcher script successfully'']])
        (\<lambda>msg. steps [emit [Logger ERROR (''Failed to create launcher script: '' @ msg)],
                       raise_exn (Exc msg)]))"

text \<open>The bundler is imported, its arguments are built, and it is run.\<close>

definition bundle_try :: "env \<Rightarrow> gui \<Rightarrow> path \<Rightarrow> path \<Rightarrow> path \<Rightarrow> stmt" where
  "bundle_try E G temp_script src out =
     (let pyinstaller_args =
            [temp_script,
             ''--distpath'', out,
             ''--workpath'', os_path_join E out ''build'',
             ''--specpath'', out,
             ''--onefile'',
             ''--add-data'', src @ ''/*;.''];
          pyinstaller_args =
            (if window_var G then pyinstaller_args @ [''--windowed''] else pyinstaller_args)
      in steps
          [ext_call ImportPyInstaller (import_PyInstaller E),
           if window_var G
           then emit [Logger DEBUG ''Window mode enabled'',
                      Put (''log'', PStr ''Window mode enabled - console will be hidden in final EXE'')]
           else skip,
           emit [Logger INFO ''Running PyInstaller...'',
                 Put (''log'', PStr ''Running PyInstaller...''),
                 Put (''progress'', PInt 80)],
           ext_call (PyInstallerRun pyinstaller_args) (PyInstaller_run E pyinstaller_args),
           emit [Logger INFO ''PyInstaller completed successfully'']])"

definition bundle_stage :: "env \<Rightarrow> gui \<Rightarrow> path \<Rightarrow> path \<Rightarrow> path \<Rightarrow> stmt" where
  "bundle_stage E G temp_script src out =
     try_except (bundle_try E G temp_script src out)
       (\<lambda>msg. steps [emit [Logger ERROR (''PyInstaller failed: '' @ msg)], raise_exn (Exc msg)])"

text \<open>The temporary files are deleted; an \<^verbatim>\<open>Exception\<close> here is logged and not raised again.\<close>

definition cleanup_try :: "env \<Rightarrow> path \<Rightarrow> path \<Rightarrow> stmt" where
  "cleanup_try E temp_script out =
     (let build_dir = os_path_join E out ''build'';
          spec_file = os_path_join E out ''launcher.spec''
      in steps
          [ext_call (OsRemove temp_script) (os_remove E temp_script),
           if os_path_exists E build_dir
           then ext_call (ShutilRmtree build_dir) (shutil_rmtree E build_dir) else skip,
           if os_path_exists E spec_file
           then ext_call (OsRemove spec_file) (os_remove E spec_file) else skip,
           emit [Logger DEBUG ''Cleaned up temporary files and build artifacts'',
                 Put (''log'', PStr ''Cleaned up temporary files and build artifacts''),
                 Put (''progress'', PInt 100)]])"

definition cleanup_stage :: "env \<Rightarrow> path \<Rightarrow> path \<Rightarrow> stmt" where
  "cleanup_stage E temp_script out =
     try_except (cleanup_try E temp_script out)
       (\<lambda>msg. emit [Logger WARNING (''Failed to clean up temporary files: '' @ msg)])"

text \<open>The stages that follow the scan, for the target \<open>main_file\<close> of kind \<open>is_python\<close>.\<close>

definition convert_found :: "env \<Rightarrow> gui \<Rightarrow> path \<Rightarrow> path \<Rightarrow> path \<Rightarrow> bool \<Rightarrow> stmt" where
  "convert_found E G src out main_file is_python =
     (let temp_script = os_path_join E src ''launcher.py''
      in steps
          [if is_python
           then emit [Logger INFO (''Found Python file: '' @ main_file),
                      Put (''log'', PStr (''Found Python file: '' @ main_file))]
           else emit [Logger INFO (''Found EXE file: '' @ main_file),
                      Put (''log'', PStr (''Found EXE file: '' @ main_file))],
           emit [Put (''progress'', PInt 20)],
           prepare_output E out,
           emit [Put (''log'', PStr ''Creating launcher script...''),
                 Put (''progress'', PInt 40)],
           write_launcher E temp_script main_file is_python,
           emit [Put (''log'', PStr ''Configuring PyInstaller...''),
                 Put (''progress'', PInt 60)],
           bundle_stage E G temp_script src out,
           cleanup_stage E temp_script out,
           emit [Logger INFO ''Conversion completed successfully'',
                 Put (''log'', PStr ''Conversion completed successfully!''),
                 Put (''success'',
                      PStr (''Folder converted to single EXE successfully!\<newline>Output location: ''
                            @ out))]])"

text \<open>
  The scan of the listing \<open>names\<close>: the names with each suffix, the report if there are
  none, and the choice of the target.
\<close>

definition convert_listed :: "env \<Rightarrow> gui \<Rightarrow> path \<Rightarrow> path \<Rightarrow> string list \<Rightarrow> stmt" where
  "convert_listed E G src out names =
     (let exe_files = filter (\<lambda>f. endswith f ''.exe'') names;
          py_files = filter (\<lambda>f. endswith f ''.py'') names
      in if exe_files = [] \<and> py_files = [] then
           steps [emit [Logger ERROR ''No EXE or Python files found in source folder'',
                        Put (''error'', PStr ''No EXE or Python files found in source folder''),
                        Put (''done'', PNone)],
                  do_return]
         else if exe_files \<noteq> [] then
           convert_found E G src out (os_path_join E src (hd exe_files)) False
         else
           convert_found E G src out (os_path_join E src (hd py_files)) True)"

text \<open>
  The body of the outer \<^verbatim>\<open>try\<close>.  The source lists the directory twice, once for each
  suffix; the environment answers both times with the same listing.
\<close>

definition convert_try :: "env \<Rightarrow> gui \<Rightarrow> path list \<Rightarrow> stmt" where
  "convert_try E G sp =
     (let src = strip (source_path G);
          out = strip (output_path G)
      in steps
          [emit [Logger INFO ''Starting app conversion''],
           provision E G sp,
           emit [Logger DEBUG (''Source path: '' @ src),
                 Logger DEBUG (''Output path: '' @ out)],
           if src = [] \<or> out = [] then
             steps [emit [Logger ERROR ''Source or output path not specified'',
                          Put (''error'', PStr ''Please select source and output folders''),
                          Put (''done'', PNone)],
                    do_return]
           else skip,
           if \<not> os_path_exists E src then
             steps [emit [Logger ERROR (''Source folder does not exist: '' @ src),
                          Put (''error'', PStr (''Source folder does not exist: '' @ src)),
                          Put (''done'', PNone)],
                    do_return]
           else skip,
           emit [Put (''progress'', PInt 0),
                 Put (''log'', PStr ''Starting conversion process...''),
                 Put (''log'', PStr (''Scanning source directory: '' @ src))],
           case os_listdir E src of
             Inl e \<Rightarrow> raise_exn e
           | Inr names \<Rightarrow> convert_listed E G src out names])"

text \<open>
  \<^verbatim>\<open>convert_app\<close>: the \<^verbatim>\<open>try\<close> block, the outer handler, which reports the exception and
  does not raise it again, and the \<^verbatim>\<open>finally\<close> clause.  What is left of the outcome is
  \<open>Raise\<close> only for an exception that ends the worker thread.
\<close>

definition convert_app :: "env \<Rightarrow> gui \<Rightarrow> path list \<Rightarrow> stmt" where
  "convert_app E G sp =
     try_finally
       (try_except (convert_try E G sp)
          (\<lambda>msg. let error_msg = ''An error occurred: '' @ msg
                 in emit [Logger ERROR error_msg,
                          Put (''log'', PStr (''ERROR: '' @ error_msg)),
                          Put (''error'', PStr error_msg)]))
       [Put (''done'', PNone)]"

text \<open>The actions of one run of the worker, and \<^verbatim>\<open>sys.path\<close> after it.\<close>

definition run :: "env \<Rightarrow> gui \<Rightarrow> path list \<Rightarrow> action list" where
  "run E G sp = fst (convert_app E G sp)"

definition sys_path_after :: "env \<Rightarrow> gui \<Rightarrow> path list \<Rightarrow> path list" where
  "sys_path_after E G sp = fst (snd (ensure_dependencies E G sp))"

section \<open>Sample inputs\<close>

text \<open>
  A concrete environment for the examples: every path exists, every call succeeds, the
  source directory lists \<^verbatim>\<open>data.txt\<close> and \<^verbatim>\<open>app.py\<close>, and paths are joined with one
  slash.  The examples change one field at a time.
\<close>

definition demo_join :: "path \<Rightarrow> string \<Rightarrow> path" where
  "demo_join a b = a @ ''/'' @ b"

definition demo_basename :: "path \<Rightarrow> string" where
  "demo_basename p = rev (takeWhile (\<lambda>c. c \<noteq> CHR ''/'') (rev p))"

definition demo_env :: env where
  "demo_env =
     \<lparr>os_path_exists = (\<lambda>p. True),
      os_path_join = demo_join,
      os_path_basename = demo_basename,
      dir_entries = (\<lambda>p. Inr [(''data.txt'', RegularFile), (''app.py'', RegularFile)]),
      os_makedirs = (\<lambda>p. None),
      os_remove = (\<lambda>p. None),
      shutil_rmtree = (\<lambda>p. None),
      tempfile_gettempdir = ''tmp'',
      urlretrieve = (\<lambda>u p. None),
      zip_extractall = (\<lambda>a p. None),
      open_write = (\<lambda>p t. None),
      import_PyInstaller = None,
      PyInstaller_run = (\<lambda>a. None)\<rparr>"

definition demo_gui :: gui where
  "demo_gui = \<lparr>deps_dir = ''deps'', source_path = ''src'', output_path = ''out'', window_var = False\<rparr>"

text \<open>
  Variations: the bundler raises; deleting a file raises; the dependency is not installed;
  the download fails; the source directory holds no target; it holds a directory named like
  a script; the source field is empty.
\<close>

definition env_bundler_fails :: env where
  "env_bundler_fails = demo_env\<lparr>PyInstaller_run := \<lambda>a. Some (Exc ''boom'')\<rparr>"

definition env_cleanup_fails :: env where
  "env_cleanup_fails = demo_env\<lparr>os_remove := \<lambda>p. Some (Exc ''busy'')\<rparr>"

definition env_deps_absent :: env where
  "env_deps_absent = demo_env\<lparr>os_path_exists := \<lambda>p. False\<rparr>"

definition env_download_fails :: env where
  "env_download_fails =
     demo_env\<lparr>os_path_exists := \<lambda>p. False, urlretrieve := \<lambda>u p. Some (Exc ''offline'')\<rparr>"

definition env_no_target :: env where
  "env_no_target = demo_env\<lparr>dir_entries := \<lambda>p. Inr [(''data.txt'', RegularFile)]\<rparr>"

definition env_script_dir :: env where
  "env_script_dir =
     demo_env\<lparr>dir_entries := \<lambda>p. Inr [(''data.txt'', RegularFile), (''pkg.py'', Directory)]\<rparr>"

definition gui_blank :: gui where
  "gui_blank = demo_gui\<lparr>source_path := []\<rparr>"

text \<open>
  Further variations: the window option is set; the output field spells a flag of the
  bundler; the source directory holds a script and two executables; it holds one script whose
  name contains a double quote.
\<close>

definition gui_windowed :: gui where
  "gui_windowed = demo_gui\<lparr>window_var := True\<rparr>"

definition gui_flag_output :: gui where
  "gui_flag_output = demo_gui\<lparr>output_path := ''--windowed''\<rparr>"


definition env_two_kinds :: env where
  "env_two_kinds =
     demo_env\<lparr>dir_entries := \<lambda>p. Inr [(''a.py'', RegularFile), (''tool.exe'', RegularFile),
                                      (''b.exe'', RegularFile)]\<rparr>"


section \<open>The pattern of the data spec\<close>






section \<open>Notions used in the proofs\<close>

text \<open>The install path of the one declared dependency, \<^verbatim>\<open>pyinstaller-5.13.0\<close> under the dependency directory.\<close>

definition pyinstaller_dep_path :: "env \<Rightarrow> gui \<Rightarrow> path" where
  "pyinstaller_dep_path E G = os_path_join E (deps_dir G) ''pyinstaller-5.13.0''"

text \<open>The argument list that \<open>bundle_try\<close> builds, as a function of its inputs.\<close>

definition bundler_args :: "env \<Rightarrow> bool \<Rightarrow> path \<Rightarrow> path \<Rightarrow> path \<Rightarrow> string list" where
  "bundler_args E w ts src out =
     [ts, ''--distpath'', out, ''--workpath'', os_path_join E out ''build'',
      ''--specpath'', out, ''--onefile'', ''--add-data'', src @ ''/*;.'']
     @ (if w then [''--windowed''] else [])"

text \<open>The last statement of \<open>convert_try\<close>, and the condition under which it is reached.\<close>

definition scanned :: "env \<Rightarrow> gui \<Rightarrow> stmt" where
  "scanned E G =
     (case os_listdir E (strip (source_path G)) of
        Inl e \<Rightarrow> raise_exn e
      | Inr names \<Rightarrow> convert_listed E G (strip (source_path G)) (strip (output_path G)) names)"

definition reaches_scan :: "env \<Rightarrow> gui \<Rightarrow> path list \<Rightarrow> bool" where
  "reaches_scan E G sp =
     (snd (provision E G sp) = Continue \<and> strip (source_path G) \<noteq> [] \<and>
      strip (output_path G) \<noteq> [] \<and> os_path_exists E (strip (source_path G)))"

text \<open>No record of level \<^verbatim>\<open>ERROR\<close> among the actions.\<close>

definition quiet :: "action list \<Rightarrow> bool" where
  "quiet as = (\<forall>x\<in>set (logged as). fst x \<noteq> ERROR)"

section \<open>Basic facts\<close>

lemma emit_simps [simp]: "fst (emit as) = as" "snd (emit as) = Continue"
  by (simp_all add: emit_def)

lemma skip_simps [simp]: "fst skip = []" "snd skip = Continue"
  by (simp_all add: skip_def)

lemma do_return_simps [simp]: "fst do_return = []" "snd do_return = Return"
  by (simp_all add: do_return_def)

lemma raise_exn_simps [simp]: "fst (raise_exn e) = []" "snd (raise_exn e) = Raise e"
  by (simp_all add: raise_exn_def)

lemma ext_call_simps [simp]:
  "fst (ext_call c r) = [Call c r]"
  "snd (ext_call c r) = (case r of None \<Rightarrow> Continue | Some e \<Rightarrow> Raise e)"
  by (simp_all add: ext_call_def)

lemma then_do_simps [simp]:
  "fst (then_do m k) = fst m @ (if snd m = Continue then fst k else [])"
  "snd (then_do m k) = (if snd m = Continue then snd k else snd m)"
  by (simp_all add: then_do_def split: outcome.splits)

lemma try_except_simps [simp]:
  "fst (try_except b h) = fst b @ (case snd b of Raise (Exc msg) \<Rightarrow> fst (h msg) | _ \<Rightarrow> [])"
  "snd (try_except b h) = (case snd b of Raise (Exc msg) \<Rightarrow> snd (h msg) | _ \<Rightarrow> snd b)"
  by (simp_all add: try_except_def split: outcome.splits exn.splits)

lemma try_finally_simps [simp]:
  "fst (try_finally b f) = fst b @ f" "snd (try_finally b f) = snd b"
  by (simp_all add: try_finally_def)

lemma puts_append [simp]: "puts (xs @ ys) = puts xs @ puts ys"
  by (induction xs rule: puts.induct) auto

lemma calls_append [simp]: "calls (xs @ ys) = calls xs @ calls ys"
  by (induction xs rule: calls.induct) auto

lemma logged_append [simp]: "logged (xs @ ys) = logged xs @ logged ys"
  by (induction xs rule: logged.induct) auto

lemma self_log_proj [simp]:
  "puts (self_log m) = []" "calls (self_log m) = []"
  "logged (self_log m) = [(DEBUG, ''GUI Log: '' @ m)]"
  by (simp_all add: self_log_def)

lemma install_try_puts: "puts (fst (install_try E n i dp)) = []"
  by (simp add: install_try_def Let_def)

lemma check_dep_puts: "puts (fst (check_dep E n i dp)) = []"
  by (simp add: check_dep_def install_try_puts split: outcome.splits exn.splits)

lemma deps_loop_puts: "deps_loop E G ds inst sp = (as, sp', r) \<Longrightarrow> puts as = []"
proof (induction ds arbitrary: inst sp as sp' r)
  case Nil
  then show ?case by simp
next
  case (Cons d ds)
  obtain n i where d: "d = (n, i)" by (cases d)
  show ?case
    using Cons.prems
    by (auto simp: d Let_def check_dep_puts split: outcome.splits prod.splits if_splits
             dest!: Cons.IH)
qed

lemma ensure_dependencies_puts: "puts (fst (ensure_dependencies E G sp)) = []"
  by (auto simp: ensure_dependencies_def Let_def dest: deps_loop_puts
           split: prod.splits sum.splits bool.splits)

lemma provision_puts [simp]: "puts (fst (provision E G sp)) = []"
  using ensure_dependencies_puts [of E G sp]
  by (auto simp: provision_def split: prod.splits sum.splits bool.splits)

lemma install_try_snd:
  "snd (install_try E n i dp) =
     (let tmp = os_path_join E (tempfile_gettempdir E) (n @ ''.tar.gz'')
      in case urlretrieve E (url i) tmp of Some e \<Rightarrow> Raise e
         | None \<Rightarrow> (case zip_extractall E tmp dp of Some e \<Rightarrow> Raise e
         | None \<Rightarrow> (case os_remove E tmp of Some e \<Rightarrow> Raise e | None \<Rightarrow> Continue)))"
  by (simp add: install_try_def Let_def split: option.splits)

lemma install_try_calls:
  "calls (fst (install_try E n i dp)) =
     (let tmp = os_path_join E (tempfile_gettempdir E) (n @ ''.tar.gz'')
      in (UrlRetrieve (url i) tmp, urlretrieve E (url i) tmp) #
         (if urlretrieve E (url i) tmp \<noteq> None then []
          else (ZipExtractall tmp dp, zip_extractall E tmp dp) #
               (if zip_extractall E tmp dp \<noteq> None then []
                else [(OsRemove tmp, os_remove E tmp)])))"
  by (simp add: install_try_def Let_def split: option.splits)

lemma check_dep_snd:
  "snd (check_dep E n i dp) =
     (if os_path_exists E dp then Continue else snd (install_try E n i dp))"
  by (simp add: check_dep_def split: outcome.splits exn.splits)

lemma check_dep_calls:
  "calls (fst (check_dep E n i dp)) =
     (if os_path_exists E dp then [] else calls (fst (install_try E n i dp)))"
  by (simp add: check_dep_def split: outcome.splits exn.splits)

lemma deps_loop_one:
  "deps_loop E G [(n, i)] inst sp =
     (let dp = os_path_join E (deps_dir G) (n @ ''-'' @ version i);
          body = check_dep E n i dp
      in case snd body of
           Raise e \<Rightarrow> (fst body, sp, Inl e)
         | _ \<Rightarrow> (fst body @ (if dp \<notin> set sp
                               then [Logger DEBUG (''Added '' @ dp @ '' to Python path'')] else []),
                 (if dp \<notin> set sp then dp # sp else sp),
                 Inr (inst \<or> \<not> os_path_exists E dp)))"
  by (simp add: Let_def split: outcome.splits)

lemma provision_snd:
  "snd (provision E G sp) =
     (if os_path_exists E (pyinstaller_dep_path E G) then Continue
      else case snd (install_try E ''pyinstaller'' (snd (hd DEPENDENCIES)) (pyinstaller_dep_path E G)) of
             Raise e \<Rightarrow> Raise e | _ \<Rightarrow> Return)"
  unfolding provision_def ensure_dependencies_def DEPENDENCIES_def deps_loop_one
  by (simp add: pyinstaller_dep_path_def Let_def check_dep_snd split: outcome.splits)

lemma provision_calls:
  "calls (fst (provision E G sp)) =
     (if os_path_exists E (pyinstaller_dep_path E G) then []
      else calls (fst (install_try E ''pyinstaller'' (snd (hd DEPENDENCIES)) (pyinstaller_dep_path E G)))
           @ (case snd (install_try E ''pyinstaller'' (snd (hd DEPENDENCIES)) (pyinstaller_dep_path E G)) of
                Raise e \<Rightarrow> [] | _ \<Rightarrow> [(WindowAfterDestroy, None)]))"
  unfolding provision_def ensure_dependencies_def DEPENDENCIES_def deps_loop_one
  by (simp add: pyinstaller_dep_path_def Let_def check_dep_snd check_dep_calls split: outcome.splits)

lemma prepare_output_snd:
  "snd (prepare_output E out) =
     (if os_path_exists E out then Continue
      else case os_makedirs E out of None \<Rightarrow> Continue
           | Some (Exc m) \<Rightarrow> Return | Some e \<Rightarrow> Raise e)"
  by (simp add: prepare_output_def split: option.splits exn.splits)

lemma prepare_output_calls:
  "calls (fst (prepare_output E out)) =
     (if os_path_exists E out then [] else [(OsMakedirs out, os_makedirs E out)])"
  by (simp add: prepare_output_def split: option.splits exn.splits)

lemma prepare_output_puts:
  "puts (fst (prepare_output E out)) =
     (if os_path_exists E out then []
      else case os_makedirs E out of
             None \<Rightarrow> [(''log'', PStr (''Created output directory: '' @ out))]
           | Some (Exc m) \<Rightarrow> [(''error'', PStr (''Could not create output directory: '' @ m)),
                               (''done'', PNone)]
           | Some e \<Rightarrow> [])"
  by (simp add: prepare_output_def split: option.splits exn.splits)

lemma write_launcher_snd:
  "snd (write_launcher E ts mf py) =
     (case open_write E ts (launcher_text py (os_path_basename E mf)) of
        None \<Rightarrow> Continue | Some e \<Rightarrow> Raise e)"
  by (simp add: write_launcher_def Let_def split: option.splits exn.splits)

lemma write_launcher_calls:
  "calls (fst (write_launcher E ts mf py)) =
     [(OpenWrite ts (launcher_text py (os_path_basename E mf)),
       open_write E ts (launcher_text py (os_path_basename E mf)))]"
  by (simp add: write_launcher_def Let_def split: option.splits exn.splits)

lemma write_launcher_puts: "puts (fst (write_launcher E ts mf py)) = []"
  by (simp add: write_launcher_def Let_def split: option.splits exn.splits)

lemma bundle_try_snd:
  "snd (bundle_try E G ts src out) =
     (case import_PyInstaller E of Some e \<Rightarrow> Raise e
      | None \<Rightarrow> (case PyInstaller_run E (bundler_args E (window_var G) ts src out) of
                   Some e \<Rightarrow> Raise e | None \<Rightarrow> Continue))"
  by (simp add: bundle_try_def bundler_args_def Let_def split: option.splits)

lemma bundle_try_calls:
  "calls (fst (bundle_try E G ts src out)) =
     (ImportPyInstaller, import_PyInstaller E) #
     (if import_PyInstaller E \<noteq> None then []
      else [(PyInstallerRun (bundler_args E (window_var G) ts src out),
             PyInstaller_run E (bundler_args E (window_var G) ts src out))])"
  by (simp add: bundle_try_def bundler_args_def Let_def split: option.splits)

lemma bundle_try_puts:
  "puts (fst (bundle_try E G ts src out)) =
     (if import_PyInstaller E \<noteq> None then []
      else (if window_var G
            then [(''log'', PStr ''Window mode enabled - console will be hidden in final EXE'')]
            else [])
           @ [(''log'', PStr ''Running PyInstaller...''), (''progress'', PInt 80)])"
  by (simp add: bundle_try_def Let_def split: option.splits)

lemma bundle_stage_snd: "snd (bundle_stage E G ts src out) = snd (bundle_try E G ts src out)"
  by (simp add: bundle_stage_def split: outcome.splits exn.splits)

lemma bundle_stage_calls:
  "calls (fst (bundle_stage E G ts src out)) = calls (fst (bundle_try E G ts src out))"
  by (simp add: bundle_stage_def split: outcome.splits exn.splits)

lemma bundle_stage_puts:
  "puts (fst (bundle_stage E G ts src out)) = puts (fst (bundle_try E G ts src out))"
  by (simp add: bundle_stage_def split: outcome.splits exn.splits)

lemma cleanup_try_snd:
  "snd (cleanup_try E ts out) =
     (case os_remove E ts of Some e \<Rightarrow> Raise e
      | None \<Rightarrow>
         (case (if os_path_exists E (os_path_join E out ''build'')
                then shutil_rmtree E (os_path_join E out ''build'') else None) of
            Some e \<Rightarrow> Raise e
          | None \<Rightarrow>
             (case (if os_path_exists E (os_path_join E out ''launcher.spec'')
                    then os_remove E (os_path_join E out ''launcher.spec'') else None) of
                Some e \<Rightarrow> Raise e
              | None \<Rightarrow> Continue)))"
  by (simp add: cleanup_try_def Let_def split: option.splits)

lemma cleanup_try_calls:
  "calls (fst (cleanup_try E ts out)) =
     (OsRemove ts, os_remove E ts) #
     (if os_remove E ts \<noteq> None then []
      else (if os_path_exists E (os_path_join E out ''build'')
            then [(ShutilRmtree (os_path_join E out ''build''),
                   shutil_rmtree E (os_path_join E out ''build''))]
            else [])
           @ (if os_path_exists E (os_path_join E out ''build'')
                 \<and> shutil_rmtree E (os_path_join E out ''build'') \<noteq> None then []
              else if os_path_exists E (os_path_join E out ''launcher.spec'')
              then [(OsRemove (os_path_join E out ''launcher.spec''),
                     os_remove E (os_path_join E out ''launcher.spec''))]
              else []))"
  by (simp add: cleanup_try_def Let_def split: option.splits)

lemma cleanup_try_puts:
  "puts (fst (cleanup_try E ts out)) =
     (if snd (cleanup_try E ts out) = Continue
      then [(''log'', PStr ''Cleaned up temporary files and build artifacts''),
            (''progress'', PInt 100)]
      else [])"
  by (simp add: cleanup_try_def Let_def split: option.splits)

lemma cleanup_stage_snd:
  "snd (cleanup_stage E ts out) =
     (case snd (cleanup_try E ts out) of Raise (Exc m) \<Rightarrow> Continue | r \<Rightarrow> r)"
  by (simp add: cleanup_stage_def split: outcome.splits exn.splits)

lemma cleanup_stage_calls:
  "calls (fst (cleanup_stage E ts out)) = calls (fst (cleanup_try E ts out))"
  by (simp add: cleanup_stage_def split: outcome.splits exn.splits)

lemma cleanup_stage_puts:
  "puts (fst (cleanup_stage E ts out)) = puts (fst (cleanup_try E ts out))"
  by (simp add: cleanup_stage_def split: outcome.splits exn.splits)

lemma cleanup_try_not_return: "snd (cleanup_try E ts out) \<noteq> Return"
  by (simp add: cleanup_try_snd split: option.splits)

lemma convert_found_calls:
  "calls (fst (convert_found E G src out mf py)) =
     (let ts = os_path_join E src ''launcher.py'' in
      calls (fst (prepare_output E out)) @
      (if snd (prepare_output E out) \<noteq> Continue then []
       else calls (fst (write_launcher E ts mf py)) @
            (if snd (write_launcher E ts mf py) \<noteq> Continue then []
             else calls (fst (bundle_try E G ts src out)) @
                  (if snd (bundle_try E G ts src out) \<noteq> Continue then []
                   else calls (fst (cleanup_try E ts out))))))"
  by (simp add: convert_found_def Let_def bundle_stage_snd bundle_stage_calls cleanup_stage_calls)

lemma convert_found_snd:
  "snd (convert_found E G src out mf py) =
     (let ts = os_path_join E src ''launcher.py'' in
      if snd (prepare_output E out) \<noteq> Continue then snd (prepare_output E out)
      else if snd (write_launcher E ts mf py) \<noteq> Continue then snd (write_launcher E ts mf py)
      else if snd (bundle_try E G ts src out) \<noteq> Continue then snd (bundle_try E G ts src out)
      else snd (cleanup_stage E ts out))"
  by (simp add: convert_found_def Let_def bundle_stage_snd)

lemma convert_found_puts:
  "puts (fst (convert_found E G src out mf py)) =
     (let ts = os_path_join E src ''launcher.py'' in
      [(''log'', PStr ((if py then ''Found Python file: '' else ''Found EXE file: '') @ mf)),
       (''progress'', PInt 20)] @
      puts (fst (prepare_output E out)) @
      (if snd (prepare_output E out) \<noteq> Continue then []
       else [(''log'', PStr ''Creating launcher script...''), (''progress'', PInt 40)] @
            (if snd (write_launcher E ts mf py) \<noteq> Continue then []
             else [(''log'', PStr ''Configuring PyInstaller...''), (''progress'', PInt 60)] @
                  puts (fst (bundle_try E G ts src out)) @
                  (if snd (bundle_try E G ts src out) \<noteq> Continue then []
                   else puts (fst (cleanup_try E ts out)) @
                        (if snd (cleanup_stage E ts out) \<noteq> Continue then []
                         else [(''log'', PStr ''Conversion completed successfully!''),
                               (''success'',
                                PStr (''Folder converted to single EXE successfully!\<newline>Output location: '' @ out))])))))"
  by (simp add: convert_found_def Let_def bundle_stage_snd bundle_stage_puts cleanup_stage_puts
                write_launcher_puts)

lemma filter_first:
  "\<forall>f\<in>set pre. \<not> P f \<Longrightarrow> P n \<Longrightarrow> filter P (pre @ n # post) = n # filter P post"
  by (induction pre) auto

lemma convert_listed_exe:
  "names = pre @ n # post \<Longrightarrow> endswith n ''.exe'' \<Longrightarrow> \<forall>f\<in>set pre. \<not> endswith f ''.exe'' \<Longrightarrow>
   convert_listed E G src out names = convert_found E G src out (os_path_join E src n) False"
  by (simp add: convert_listed_def Let_def filter_first)

lemma convert_listed_py:
  "names = pre @ n # post \<Longrightarrow> endswith n ''.py'' \<Longrightarrow> \<forall>f\<in>set pre. \<not> endswith f ''.py'' \<Longrightarrow>
   \<forall>f\<in>set names. \<not> endswith f ''.exe'' \<Longrightarrow>
   convert_listed E G src out names = convert_found E G src out (os_path_join E src n) True"
proof -
  assume a: "names = pre @ n # post" "endswith n ''.py''" "\<forall>f\<in>set pre. \<not> endswith f ''.py''"
    and b: "\<forall>f\<in>set names. \<not> endswith f ''.exe''"
  have "filter (\<lambda>f. endswith f ''.exe'') names = []"
    using b by (simp add: filter_empty_conv)
  moreover have "filter (\<lambda>f. endswith f ''.py'') names = n # filter (\<lambda>f. endswith f ''.py'') post"
    using a by (simp add: filter_first)
  ultimately show ?thesis
    by (simp add: convert_listed_def Let_def)
qed

lemma convert_listed_none:
  "\<forall>f\<in>set names. \<not> endswith f ''.exe'' \<and> \<not> endswith f ''.py'' \<Longrightarrow>
   convert_listed E G src out names =
     ([Logger ERROR ''No EXE or Python files found in source folder'',
       Put (''error'', PStr ''No EXE or Python files found in source folder''),
       Put (''done'', PNone)], Return)"
proof -
  assume a: "\<forall>f\<in>set names. \<not> endswith f ''.exe'' \<and> \<not> endswith f ''.py''"
  have "filter (\<lambda>f. endswith f ''.exe'') names = []" "filter (\<lambda>f. endswith f ''.py'') names = []"
    using a by (simp_all add: filter_empty_conv)
  then show ?thesis
    by (simp add: convert_listed_def Let_def then_do_def emit_def do_return_def skip_def)
qed

lemma convert_listed_cases:
  "convert_listed E G src out names =
     ([Logger ERROR ''No EXE or Python files found in source folder'',
       Put (''error'', PStr ''No EXE or Python files found in source folder''),
       Put (''done'', PNone)], Return)
   \<or> (\<exists>mf py. convert_listed E G src out names = convert_found E G src out mf py)"
  by (auto simp: convert_listed_def Let_def then_do_def emit_def do_return_def skip_def)

lemma convert_try_calls:
  "calls (fst (convert_try E G sp)) =
     calls (fst (provision E G sp)) @ (if reaches_scan E G sp then calls (fst (scanned E G)) else [])"
  by (simp add: convert_try_def Let_def reaches_scan_def scanned_def)

lemma convert_try_snd:
  "snd (convert_try E G sp) =
     (if reaches_scan E G sp then snd (scanned E G)
      else if snd (provision E G sp) \<noteq> Continue then snd (provision E G sp) else Return)"
  by (auto simp: convert_try_def Let_def reaches_scan_def scanned_def)

lemma convert_try_puts:
  "puts (fst (convert_try E G sp)) =
     (if reaches_scan E G sp
      then [(''progress'', PInt 0), (''log'', PStr ''Starting conversion process...''),
            (''log'', PStr (''Scanning source directory: '' @ strip (source_path G)))]
           @ puts (fst (scanned E G))
      else if snd (provision E G sp) \<noteq> Continue then []
      else if strip (source_path G) = [] \<or> strip (output_path G) = []
      then [(''error'', PStr ''Please select source and output folders''), (''done'', PNone)]
      else [(''error'', PStr (''Source folder does not exist: '' @ strip (source_path G))),
            (''done'', PNone)])"
  by (auto simp: convert_try_def Let_def reaches_scan_def scanned_def)

lemma run_calls: "calls (run E G sp) = calls (fst (convert_try E G sp))"
  by (simp add: run_def convert_app_def Let_def split: outcome.splits exn.splits)

lemma run_puts:
  "puts (run E G sp) =
     puts (fst (convert_try E G sp))
     @ (case snd (convert_try E G sp) of
          Raise (Exc m) \<Rightarrow> [(''log'', PStr (''ERROR: An error occurred: '' @ m)),
                             (''error'', PStr (''An error occurred: '' @ m))]
        | _ \<Rightarrow> [])
     @ [(''done'', PNone)]"
  by (simp add: run_def convert_app_def Let_def split: outcome.splits exn.splits)

lemma convert_app_snd:
  "snd (convert_app E G sp) =
     (case snd (convert_try E G sp) of Raise (Exc m) \<Rightarrow> Continue | r \<Rightarrow> r)"
  by (simp add: convert_app_def Let_def split: outcome.splits exn.splits)

lemma provision_continue_calls:
  "snd (provision E G sp) = Continue \<Longrightarrow> calls (fst (provision E G sp)) = []"
  by (auto simp: provision_snd provision_calls split: if_splits outcome.splits)

lemma provision_calls_kinds:
  "(c, r) \<in> set (calls (fst (provision E G sp))) \<Longrightarrow>
   (\<exists>u p. c = UrlRetrieve u p) \<or> (\<exists>a b. c = ZipExtractall a b) \<or>
   c = OsRemove (os_path_join E (tempfile_gettempdir E) ''pyinstaller.tar.gz'') \<or>
   c = WindowAfterDestroy"
  by (auto simp: provision_calls install_try_calls Let_def split: if_splits outcome.splits)

lemma scanned_cases:
  "(\<exists>e. scanned E G = raise_exn e)
   \<or> scanned E G =
       ([Logger ERROR ''No EXE or Python files found in source folder'',
         Put (''error'', PStr ''No EXE or Python files found in source folder''),
         Put (''done'', PNone)], Return)
   \<or> (\<exists>mf py. scanned E G =
         convert_found E G (strip (source_path G)) (strip (output_path G)) mf py)"
  using convert_listed_cases
  by (auto simp: scanned_def split: sum.splits)

lemma run_eq:
  "run E G sp =
     fst (convert_try E G sp)
     @ (case snd (convert_try E G sp) of
          Raise (Exc m) \<Rightarrow> [Logger ERROR (''An error occurred: '' @ m),
                             Put (''log'', PStr (''ERROR: An error occurred: '' @ m)),
                             Put (''error'', PStr (''An error occurred: '' @ m))]
        | _ \<Rightarrow> [])
     @ [Put (''done'', PNone)]"
  by (simp add: run_def convert_app_def Let_def split: outcome.splits exn.splits)

lemma convert_try_reached:
  "reaches_scan E G sp \<Longrightarrow> \<exists>pre. fst (convert_try E G sp) = pre @ fst (scanned E G)"
  by (simp add: convert_try_def Let_def reaches_scan_def scanned_def)

lemma convert_found_calls_explicit:
  "calls (fst (convert_found E G src out mf py)) =
     (let ts = os_path_join E src ''launcher.py'';
          text = launcher_text py (os_path_basename E mf);
          args = bundler_args E (window_var G) ts src out
      in calls (fst (prepare_output E out)) @
         (if snd (prepare_output E out) \<noteq> Continue then []
          else (OpenWrite ts text, open_write E ts text) #
               (if open_write E ts text \<noteq> None then []
                else (ImportPyInstaller, import_PyInstaller E) #
                     (if import_PyInstaller E \<noteq> None then []
                      else (PyInstallerRun args, PyInstaller_run E args) #
                           (if PyInstaller_run E args \<noteq> None then []
                            else calls (fst (cleanup_try E ts out)))))))"
  by (auto simp: convert_found_calls Let_def write_launcher_calls write_launcher_snd
                 bundle_try_calls bundle_try_snd split: option.splits)

lemma prepare_output_calls_kinds:
  "(c, r) \<in> set (calls (fst (prepare_output E out))) \<Longrightarrow> c = OsMakedirs out \<and> r = os_makedirs E out"
  by (auto simp: prepare_output_calls split: if_splits)

lemma prepare_output_continue:
  "snd (prepare_output E out) = Continue \<Longrightarrow>
   \<forall>x\<in>set (calls (fst (prepare_output E out))). snd x = None"
  by (auto simp: prepare_output_calls prepare_output_snd split: if_splits option.splits exn.splits)

lemma cleanup_try_calls_kinds:
  "(c, r) \<in> set (calls (fst (cleanup_try E ts out))) \<Longrightarrow>
   c = OsRemove ts \<or> c = ShutilRmtree (os_path_join E out ''build'')
   \<or> c = OsRemove (os_path_join E out ''launcher.spec'')"
  by (auto simp: cleanup_try_calls split: if_splits)

lemma found_bundler_args:
  "(PyInstallerRun a, r) \<in> set (calls (fst (convert_found E G src out mf py))) \<Longrightarrow>
   a = bundler_args E (window_var G) (os_path_join E src ''launcher.py'') src out"
  by (auto simp: convert_found_calls_explicit Let_def
           dest: prepare_output_calls_kinds cleanup_try_calls_kinds split: if_splits)

lemma cleanup_all_ok:
  "\<forall>x\<in>set (calls (fst (cleanup_try E ts out))). snd x = None \<Longrightarrow>
   snd (cleanup_try E ts out) = Continue"
  by (auto simp: cleanup_try_calls cleanup_try_snd split: if_splits option.splits)

lemma cleanup_raises:
  "(c, r) \<in> set (calls (fst (cleanup_try E ts out))) \<Longrightarrow> r = Some e \<Longrightarrow>
   snd (cleanup_try E ts out) = Raise e"
  by (auto simp: cleanup_try_calls cleanup_try_snd split: if_splits option.splits)
     (metis option.distinct(1) not_None_eq)+

lemma prepare_output_puts_kinds:
  "ev \<in> set (puts (fst (prepare_output E out))) \<Longrightarrow> fst ev \<in> {''log'', ''error'', ''done''}"
  by (auto simp: prepare_output_puts split: if_splits option.splits exn.splits)

lemma prepare_output_continue_puts:
  "snd (prepare_output E out) = Continue \<Longrightarrow>
   filter (\<lambda>ev. fst ev \<noteq> ''log'') (puts (fst (prepare_output E out))) = []"
  by (auto simp: prepare_output_puts prepare_output_snd split: if_splits option.splits exn.splits)

lemma bundle_try_puts_nonlog:
  "snd (bundle_try E G ts src out) = Continue \<Longrightarrow>
   filter (\<lambda>ev. fst ev \<noteq> ''log'') (puts (fst (bundle_try E G ts src out))) = [(''progress'', PInt 80)]"
  by (auto simp: bundle_try_puts bundle_try_snd split: option.splits)

lemma bundle_try_puts_kinds:
  "ev \<in> set (puts (fst (bundle_try E G ts src out))) \<Longrightarrow> fst ev \<in> {''log'', ''progress''}"
  by (auto simp: bundle_try_puts split: if_splits)

lemma cleanup_try_puts_kinds:
  "ev \<in> set (puts (fst (cleanup_try E ts out))) \<Longrightarrow> fst ev \<in> {''log'', ''progress''}"
  by (auto simp: cleanup_try_puts split: if_splits)

lemma found_success_reached:
  assumes "(''success'', m) \<in> set (puts (fst (convert_found E G src out mf py)))"
  shows "snd (prepare_output E out) = Continue
       \<and> snd (write_launcher E (os_path_join E src ''launcher.py'') mf py) = Continue
       \<and> snd (bundle_try E G (os_path_join E src ''launcher.py'') src out) = Continue
       \<and> snd (cleanup_stage E (os_path_join E src ''launcher.py'') out) = Continue"
  using assms
  by (auto simp: convert_found_puts Let_def
           dest: prepare_output_puts_kinds bundle_try_puts_kinds cleanup_try_puts_kinds
           split: if_splits)

lemma found_all_ok_puts:
  assumes "snd (prepare_output E out) = Continue"
    and "snd (write_launcher E (os_path_join E src ''launcher.py'') mf py) = Continue"
    and "snd (bundle_try E G (os_path_join E src ''launcher.py'') src out) = Continue"
    and "snd (cleanup_try E (os_path_join E src ''launcher.py'') out) = Continue"
  shows "filter (\<lambda>ev. fst ev \<noteq> ''log'') (puts (fst (convert_found E G src out mf py))) =
           [(''progress'', PInt 20), (''progress'', PInt 40), (''progress'', PInt 60),
            (''progress'', PInt 80), (''progress'', PInt 100),
            (''success'',
             PStr (''Folder converted to single EXE successfully!\<newline>Output location: '' @ out))]"
    and "snd (convert_found E G src out mf py) = Continue"
  using assms
  by (simp_all add: convert_found_puts convert_found_snd Let_def prepare_output_continue_puts
                    bundle_try_puts_nonlog cleanup_try_puts cleanup_stage_snd)

lemma found_calls_reached_cleanup:
  assumes "snd (prepare_output E out) = Continue"
    and "snd (write_launcher E (os_path_join E src ''launcher.py'') mf py) = Continue"
    and "snd (bundle_try E G (os_path_join E src ''launcher.py'') src out) = Continue"
  shows "set (calls (fst (cleanup_try E (os_path_join E src ''launcher.py'') out)))
           \<subseteq> set (calls (fst (convert_found E G src out mf py)))"
  using assms by (auto simp: convert_found_calls Let_def)

lemma strip_demo [simp]: "strip ''src'' = ''src''" "strip ''out'' = ''out''" "strip '''' = ''''"
  by (simp_all add: strip_def isspace_def)

lemma demo_provision:
  "os_path_exists E = (\<lambda>p. True) \<Longrightarrow> snd (provision E G sp) = Continue"
  by (simp add: provision_snd)

lemma demo_scanned:
  assumes "dir_entries E = (\<lambda>p. Inr [(''data.txt'', RegularFile), (''app.py'', RegularFile)])"
    and "os_path_join E = demo_join"
  shows "scanned E demo_gui = convert_found E demo_gui ''src'' ''out'' ''src/app.py'' True"
  using assms
  by (simp add: scanned_def os_listdir_def demo_gui_def convert_listed_def Let_def
                endswith_def suffix_to_prefix demo_join_def)

lemma demo_basename_app [simp]: "demo_basename ''src/app.py'' = ''app.py''"
  by (simp add: demo_basename_def)


lemma found_bundled_then_removed:
  "(PyInstallerRun a, None) \<in> set (calls (fst (convert_found E G src out mf py))) \<Longrightarrow>
   (OsRemove (os_path_join E src ''launcher.py''), os_remove E (os_path_join E src ''launcher.py''))
     \<in> set (calls (fst (convert_found E G src out mf py)))"
  by (auto simp: convert_found_calls_explicit Let_def cleanup_try_calls
           dest: prepare_output_calls_kinds cleanup_try_calls_kinds split: if_splits)

lemma found_remove_needs_bundled:
  "(OsRemove p, r) \<in> set (calls (fst (convert_found E G src out mf py))) \<Longrightarrow>
   \<exists>a. (PyInstallerRun a, None) \<in> set (calls (fst (convert_found E G src out mf py)))"
  by (auto simp: convert_found_calls_explicit Let_def
           dest: prepare_output_calls_kinds split: if_splits)

lemma quiet_simps [simp]:
  "quiet []"
  "quiet (xs @ ys) = (quiet xs \<and> quiet ys)"
  "quiet (Logger l m # xs) = (l \<noteq> ERROR \<and> quiet xs)"
  "quiet (Put ev # xs) = quiet xs"
  "quiet (Console s # xs) = quiet xs"
  "quiet (Call c r # xs) = quiet xs"
  by (auto simp: quiet_def)

lemma quiet_self_log [simp]: "quiet (self_log m)"
  by (simp add: self_log_def)

lemma provision_continue_quiet:
  "snd (provision E G sp) = Continue \<Longrightarrow> quiet (fst (provision E G sp))"
  unfolding provision_def ensure_dependencies_def DEPENDENCIES_def deps_loop_one
  by (auto simp: Let_def check_dep_def check_dep_snd split: outcome.splits if_splits)

lemma prepare_output_continue_quiet:
  "snd (prepare_output E out) = Continue \<Longrightarrow> quiet (fst (prepare_output E out))"
  by (auto simp: prepare_output_def split: if_splits option.splits exn.splits)

lemma write_launcher_continue_quiet:
  "snd (write_launcher E ts mf py) = Continue \<Longrightarrow> quiet (fst (write_launcher E ts mf py))"
  by (auto simp: write_launcher_def Let_def split: if_splits option.splits exn.splits)

lemma bundle_stage_continue_quiet:
  "snd (bundle_try E G ts src out) = Continue \<Longrightarrow> quiet (fst (bundle_stage E G ts src out))"
  by (auto simp: bundle_stage_def bundle_try_def Let_def split: if_splits option.splits exn.splits)

lemma cleanup_stage_quiet: "quiet (fst (cleanup_stage E ts out))"
  by (auto simp: cleanup_stage_def cleanup_try_def Let_def split: if_splits option.splits exn.splits outcome.splits)

lemma cleanup_stage_warning:
  "snd (cleanup_try E ts out) = Raise (Exc m) \<Longrightarrow>
   Logger WARNING (''Failed to clean up temporary files: '' @ m) \<in> set (fst (cleanup_stage E ts out))"
  by (simp add: cleanup_stage_def)

lemma found_reached_cleanup:
  assumes "snd (prepare_output E out) = Continue"
    and "snd (write_launcher E (os_path_join E src ''launcher.py'') mf py) = Continue"
    and "snd (bundle_try E G (os_path_join E src ''launcher.py'') src out) = Continue"
  shows "set (fst (cleanup_stage E (os_path_join E src ''launcher.py'') out))
           \<subseteq> set (fst (convert_found E G src out mf py))"
    and "quiet (fst (convert_found E G src out mf py))"
  using assms
  by (auto simp: convert_found_def Let_def bundle_stage_snd prepare_output_continue_quiet
                 write_launcher_continue_quiet bundle_stage_continue_quiet cleanup_stage_quiet)

lemma convert_try_reached_eq:
  "reaches_scan E G sp \<Longrightarrow>
   fst (convert_try E G sp) =
     Logger INFO ''Starting app conversion'' # fst (provision E G sp)
     @ [Logger DEBUG (''Source path: '' @ strip (source_path G)),
        Logger DEBUG (''Output path: '' @ strip (output_path G)),
        Put (''progress'', PInt 0),
        Put (''log'', PStr ''Starting conversion process...''),
        Put (''log'', PStr (''Scanning source directory: '' @ strip (source_path G)))]
     @ fst (scanned E G)"
  by (simp add: convert_try_def Let_def reaches_scan_def scanned_def)

lemma run_quiet:
  assumes "reaches_scan E G sp"
    and "quiet (fst (scanned E G))"
    and "\<forall>m. snd (scanned E G) \<noteq> Raise (Exc m)"
  shows "quiet (run E G sp)"
  using assms
  by (auto simp: run_eq convert_try_reached_eq convert_try_snd reaches_scan_def
                 provision_continue_quiet split: outcome.splits exn.splits)

lemma demo_like_reaches:
  "os_path_exists E = (\<lambda>p. True) \<Longrightarrow> reaches_scan E demo_gui sp"
  by (simp add: reaches_scan_def demo_provision demo_gui_def)

lemma demo_like_calls:
  assumes "os_path_exists E = (\<lambda>p. True)" and "os_path_join E = demo_join"
    and "os_path_basename E = demo_basename"
    and "dir_entries E = (\<lambda>p. Inr [(''data.txt'', RegularFile), (''app.py'', RegularFile)])"
  shows "calls (run E demo_gui sp) =
     (OpenWrite ''src/launcher.py'' (launcher_text True ''app.py''),
      open_write E ''src/launcher.py'' (launcher_text True ''app.py'')) #
     (if open_write E ''src/launcher.py'' (launcher_text True ''app.py'') \<noteq> None then []
      else (ImportPyInstaller, import_PyInstaller E) #
       (if import_PyInstaller E \<noteq> None then []
        else (PyInstallerRun [''src/launcher.py'', ''--distpath'', ''out'', ''--workpath'',
                ''out/build'', ''--specpath'', ''out'', ''--onefile'', ''--add-data'', ''src/*;.''],
              PyInstaller_run E [''src/launcher.py'', ''--distpath'', ''out'', ''--workpath'',
                ''out/build'', ''--specpath'', ''out'', ''--onefile'', ''--add-data'', ''src/*;.'']) #
         (if PyInstaller_run E [''src/launcher.py'', ''--distpath'', ''out'', ''--workpath'',
                ''out/build'', ''--specpath'', ''out'', ''--onefile'', ''--add-data'', ''src/*;.'']
              \<noteq> None then []
          else (OsRemove ''src/launcher.py'', os_remove E ''src/launcher.py'') #
           (if os_remove E ''src/launcher.py'' \<noteq> None then []
            else (ShutilRmtree ''out/build'', shutil_rmtree E ''out/build'') #
             (if shutil_rmtree E ''out/build'' \<noteq> None then []
              else [(OsRemove ''out/launcher.spec'', os_remove E ''out/launcher.spec'')])))))"
proof -
  have r: "reaches_scan E demo_gui sp"
    using assms(1) by (rule demo_like_reaches)
  have s: "scanned E demo_gui = convert_found E demo_gui ''src'' ''out'' ''src/app.py'' True"
    using assms(4,2) by (rule demo_scanned)
  have p: "calls (fst (provision E demo_gui sp)) = []"
    by (rule provision_continue_calls) (simp add: demo_provision assms(1))
  show ?thesis
    by (simp add: run_calls convert_try_calls r s p
                  convert_found_calls_explicit Let_def prepare_output_calls prepare_output_snd
                  cleanup_try_calls bundler_args_def assms(1,2,3))
       (auto simp: demo_gui_def demo_join_def)
qed

lemma demo_ok_calls:
  "calls (run demo_env demo_gui []) =
     [(OpenWrite ''src/launcher.py'' (launcher_text True ''app.py''), None),
      (ImportPyInstaller, None),
      (PyInstallerRun [''src/launcher.py'', ''--distpath'', ''out'', ''--workpath'', ''out/build'',
                       ''--specpath'', ''out'', ''--onefile'', ''--add-data'', ''src/*;.''], None),
      (OsRemove ''src/launcher.py'', None),
      (ShutilRmtree ''out/build'', None),
      (OsRemove ''out/launcher.spec'', None)]"
  by (subst demo_like_calls) (simp_all add: demo_env_def)

lemma demo_bundler_fails_calls:
  "calls (run env_bundler_fails demo_gui []) =
     [(OpenWrite ''src/launcher.py'' (launcher_text True ''app.py''), None),
      (ImportPyInstaller, None),
      (PyInstallerRun [''src/launcher.py'', ''--distpath'', ''out'', ''--workpath'', ''out/build'',
                       ''--specpath'', ''out'', ''--onefile'', ''--add-data'', ''src/*;.''],
       Some (Exc ''boom''))]"
  by (subst demo_like_calls) (simp_all add: demo_env_def env_bundler_fails_def)

lemma demo_cleanup_fails_calls:
  "calls (run env_cleanup_fails demo_gui []) =
     [(OpenWrite ''src/launcher.py'' (launcher_text True ''app.py''), None),
      (ImportPyInstaller, None),
      (PyInstallerRun [''src/launcher.py'', ''--distpath'', ''out'', ''--workpath'', ''out/build'',
                       ''--specpath'', ''out'', ''--onefile'', ''--add-data'', ''src/*;.''], None),
      (OsRemove ''src/launcher.py'', Some (Exc ''busy''))]"
  by (subst demo_like_calls) (simp_all add: demo_env_def env_cleanup_fails_def)

lemma found_bundled_reached:
  assumes "(PyInstallerRun a, None) \<in> set (calls (fst (convert_found E G src out mf py)))"
  shows "snd (prepare_output E out) = Continue"
    and "snd (write_launcher E (os_path_join E src ''launcher.py'') mf py) = Continue"
    and "snd (bundle_try E G (os_path_join E src ''launcher.py'') src out) = Continue"
  using assms
  by (auto simp: convert_found_calls_explicit Let_def write_launcher_snd bundle_try_snd
           dest: prepare_output_calls_kinds cleanup_try_calls_kinds split: if_splits)

lemma prepare_output_continue_none:
  "snd (prepare_output E out) = Continue \<Longrightarrow>
   (c, r) \<in> set (calls (fst (prepare_output E out))) \<Longrightarrow> r = None"
  by (auto simp: prepare_output_calls prepare_output_snd split: if_splits option.splits exn.splits)

lemma found_raise_in_cleanup:
  assumes "snd (prepare_output E out) = Continue"
    and "snd (write_launcher E (os_path_join E src ''launcher.py'') mf py) = Continue"
    and "snd (bundle_try E G (os_path_join E src ''launcher.py'') src out) = Continue"
    and "(c, Some e) \<in> set (calls (fst (convert_found E G src out mf py)))"
  shows "(c, Some e) \<in> set (calls (fst (cleanup_try E (os_path_join E src ''launcher.py'') out)))"
  using assms
  by (auto simp: convert_found_calls_explicit Let_def write_launcher_snd bundle_try_snd
           dest: prepare_output_continue_none split: if_splits option.splits)

lemma found_cleanup_failed_puts:
  assumes "snd (prepare_output E out) = Continue"
    and "snd (write_launcher E (os_path_join E src ''launcher.py'') mf py) = Continue"
    and "snd (bundle_try E G (os_path_join E src ''launcher.py'') src out) = Continue"
    and "snd (cleanup_try E (os_path_join E src ''launcher.py'') out) = Raise (Exc m)"
  shows "filter (\<lambda>ev. fst ev \<noteq> ''log'') (puts (fst (convert_found E G src out mf py))) =
           [(''progress'', PInt 20), (''progress'', PInt 40), (''progress'', PInt 60),
            (''progress'', PInt 80),
            (''success'',
             PStr (''Folder converted to single EXE successfully!\<newline>Output location: '' @ out))]"
    and "snd (convert_found E G src out mf py) = Continue"
  using assms
  by (simp_all add: convert_found_puts convert_found_snd Let_def prepare_output_continue_puts
                    bundle_try_puts_nonlog cleanup_try_puts cleanup_stage_snd)

lemma deps_loop_flag:
  "deps_loop E G ds inst sp = (as, sp', Inr b) \<Longrightarrow>
   b = (inst \<or> (\<exists>d\<in>set ds. \<not> os_path_exists E
                    (os_path_join E (deps_dir G) (fst d @ ''-'' @ version (snd d)))))"
proof (induction ds arbitrary: inst sp as sp' b)
  case Nil
  then show ?case by simp
next
  case (Cons d ds)
  obtain n i where d: "d = (n, i)" by (cases d)
  let ?dp = "os_path_join E (deps_dir G) (n @ ''-'' @ version i)"
  from Cons.prems obtain as2 sp2 where
    "deps_loop E G ds (inst \<or> \<not> os_path_exists E ?dp) sp2 = (as2, sp', Inr b)"
    by (auto simp: d Let_def split: outcome.splits prod.splits if_splits)
  from Cons.IH [OF this] show ?case
    by (auto simp: d)
qed

lemma ensure_dependencies_flag:
  assumes "ensure_dependencies E G sp = (as, sp', Inr b)"
  shows "b = (\<exists>d\<in>set DEPENDENCIES. \<not> os_path_exists E
            (os_path_join E (deps_dir G) (fst d @ ''-'' @ version (snd d))))"
proof -
  from assms obtain as2 where "deps_loop E G DEPENDENCIES False sp = (as2, sp', Inr b)"
    by (auto simp: ensure_dependencies_def Let_def split: prod.splits sum.splits bool.splits)
  from deps_loop_flag [OF this] show ?thesis by simp
qed

lemma provision_fst: "fst (provision E G sp) = fst (ensure_dependencies E G sp)"
  by (simp add: provision_def split: prod.splits sum.splits bool.splits)

lemma provision_snd_ensure:
  "snd (provision E G sp) =
     (case snd (snd (ensure_dependencies E G sp)) of
        Inl e \<Rightarrow> Raise e | Inr True \<Rightarrow> Return | Inr False \<Rightarrow> Continue)"
  by (simp add: provision_def split: prod.splits sum.splits bool.splits)

lemma ensure_dependencies_present:
  "os_path_exists E (pyinstaller_dep_path E G) \<Longrightarrow>
   snd (snd (ensure_dependencies E G sp)) = Inr False"
  using provision_snd [of E G sp]
  by (auto simp: provision_snd_ensure split: sum.splits bool.splits)

lemma ensure_dependencies_absent:
  "\<not> os_path_exists E (pyinstaller_dep_path E G) \<Longrightarrow>
   snd (snd (ensure_dependencies E G sp)) =
     (case snd (install_try E ''pyinstaller'' (snd (hd DEPENDENCIES)) (pyinstaller_dep_path E G)) of
        Raise e \<Rightarrow> Inl e | _ \<Rightarrow> Inr True)"
  using provision_snd [of E G sp]
  by (auto simp: provision_snd_ensure split: sum.splits bool.splits outcome.splits)

lemma convert_try_provision_stops:
  "snd (provision E G sp) \<noteq> Continue \<Longrightarrow>
   convert_try E G sp =
     (Logger INFO ''Starting app conversion'' # fst (provision E G sp), snd (provision E G sp))"
  by (simp add: convert_try_def Let_def prod_eq_iff)

lemma run_no_target:
  assumes "os_path_exists E (pyinstaller_dep_path E G)"
    and "strip (source_path G) \<noteq> []" and "strip (output_path G) \<noteq> []"
    and "os_path_exists E (strip (source_path G))"
    and "os_listdir E (strip (source_path G)) = Inr names"
    and "\<forall>f\<in>set names. \<not> endswith f ''.exe'' \<and> \<not> endswith f ''.py''"
  shows "puts (run E G sp) =
           [(''progress'', PInt 0),
            (''log'', PStr ''Starting conversion process...''),
            (''log'', PStr (''Scanning source directory: '' @ strip (source_path G))),
            (''error'', PStr ''No EXE or Python files found in source folder''),
            (''done'', PNone), (''done'', PNone)]"
    and "calls (run E G sp) = []"
    and "snd (convert_app E G sp) = Return"
proof -
  have p: "snd (provision E G sp) = Continue"
    using assms(1) by (simp add: provision_snd)
  then have r: "reaches_scan E G sp"
    using assms(2-4) by (simp add: reaches_scan_def)
  have s: "scanned E G =
       ([Logger ERROR ''No EXE or Python files found in source folder'',
         Put (''error'', PStr ''No EXE or Python files found in source folder''),
         Put (''done'', PNone)], Return)"
    using assms(5,6) by (simp add: scanned_def convert_listed_none)
  show "puts (run E G sp) =
           [(''progress'', PInt 0),
            (''log'', PStr ''Starting conversion process...''),
            (''log'', PStr (''Scanning source directory: '' @ strip (source_path G))),
            (''error'', PStr ''No EXE or Python files found in source folder''),
            (''done'', PNone), (''done'', PNone)]"
    by (simp add: run_puts convert_try_puts convert_try_snd r s)
  show "calls (run E G sp) = []"
    by (simp add: run_calls convert_try_calls r s provision_continue_calls [OF p])
  show "snd (convert_app E G sp) = Return"
    by (simp add: convert_app_snd convert_try_snd r s)
qed

lemma strip_empty [simp]: "strip [] = []"
  by (simp add: strip_def)

lemma demo_ok_puts:
  "puts (run demo_env demo_gui []) =
     [(''progress'', PInt 0),
      (''log'', PStr ''Starting conversion process...''),
      (''log'', PStr ''Scanning source directory: src''),
      (''log'', PStr ''Found Python file: src/app.py''),
      (''progress'', PInt 20),
      (''log'', PStr ''Creating launcher script...''),
      (''progress'', PInt 40),
      (''log'', PStr ''Configuring PyInstaller...''),
      (''progress'', PInt 60),
      (''log'', PStr ''Running PyInstaller...''),
      (''progress'', PInt 80),
      (''log'', PStr ''Cleaned up temporary files and build artifacts''),
      (''progress'', PInt 100),
      (''log'', PStr ''Conversion completed successfully!''),
      (''success'', PStr ''Folder converted to single EXE successfully!\<newline>Output location: out''),
      (''done'', PNone)]"
proof -
  have e: "os_path_exists demo_env = (\<lambda>p. True)"
    by (simp add: demo_env_def)
  have r: "reaches_scan demo_env demo_gui []"
    using e by (rule demo_like_reaches)
  have s: "scanned demo_env demo_gui =
             convert_found demo_env demo_gui ''src'' ''out'' ''src/app.py'' True"
    by (rule demo_scanned) (simp_all add: demo_env_def)
  have b: "snd (prepare_output demo_env ''out'') = Continue"
      "puts (fst (prepare_output demo_env ''out'')) = []"
      "snd (write_launcher demo_env (os_path_join demo_env ''src'' ''launcher.py'') ''src/app.py'' True)
         = Continue"
      "snd (bundle_try demo_env demo_gui (os_path_join demo_env ''src'' ''launcher.py'') ''src'' ''out'')
         = Continue"
      "puts (fst (bundle_try demo_env demo_gui (os_path_join demo_env ''src'' ''launcher.py'') ''src'' ''out''))
         = [(''log'', PStr ''Running PyInstaller...''), (''progress'', PInt 80)]"
      "snd (cleanup_try demo_env (os_path_join demo_env ''src'' ''launcher.py'') ''out'') = Continue"
    by (simp_all add: prepare_output_snd prepare_output_puts write_launcher_snd bundle_try_snd
                      bundle_try_puts cleanup_try_snd demo_env_def demo_gui_def)
  show ?thesis
    by (simp add: run_puts convert_try_puts convert_try_snd r s convert_found_puts
                  convert_found_snd Let_def b cleanup_try_puts cleanup_stage_snd)
       (simp add: demo_gui_def)
qed

lemma demo_found_calls:
  "calls (fst (convert_found demo_env demo_gui ''src'' ''out'' ''src/app.py'' True)) =
     calls (run demo_env demo_gui [])"
proof -
  have r: "reaches_scan demo_env demo_gui []"
    by (rule demo_like_reaches) (simp add: demo_env_def)
  have s: "scanned demo_env demo_gui =
             convert_found demo_env demo_gui ''src'' ''out'' ''src/app.py'' True"
    by (rule demo_scanned) (simp_all add: demo_env_def)
  have p: "calls (fst (provision demo_env demo_gui [])) = []"
    by (rule provision_continue_calls) (simp add: demo_provision demo_env_def)
  show ?thesis
    by (simp add: run_calls convert_try_calls r s p)
qed

lemma demo_deps_absent_result:
  "snd (snd (ensure_dependencies env_deps_absent demo_gui [])) = Inr True"
  by (simp add: ensure_dependencies_absent install_try_snd Let_def env_deps_absent_def
                demo_env_def)

lemma unlines_append [simp]: "unlines (xs @ ys) = unlines xs @ unlines ys"
  by (simp add: unlines_def)

lemma run_cases [case_names stopped found]:
  assumes "\<lbrakk>calls (run E G sp) = calls (fst (provision E G sp));
            \<forall>m. (''success'', m) \<notin> set (puts (run E G sp))\<rbrakk> \<Longrightarrow> P"
    and "\<And>mf py. \<lbrakk>calls (run E G sp) =
                      calls (fst (convert_found E G (strip (source_path G)) (strip (output_path G)) mf py));
                    puts (run E G sp) =
                      [(''progress'', PInt 0), (''log'', PStr ''Starting conversion process...''),
                       (''log'', PStr (''Scanning source directory: '' @ strip (source_path G)))]
                      @ puts (fst (convert_found E G (strip (source_path G)) (strip (output_path G)) mf py))
                      @ (case snd (convert_found E G (strip (source_path G)) (strip (output_path G)) mf py) of
                           Raise (Exc m) \<Rightarrow> [(''log'', PStr (''ERROR: An error occurred: '' @ m)),
                                              (''error'', PStr (''An error occurred: '' @ m))]
                         | _ \<Rightarrow> [])
                      @ [(''done'', PNone)];
                    snd (convert_app E G sp) =
                      (case snd (convert_found E G (strip (source_path G)) (strip (output_path G)) mf py) of
                         Raise (Exc m) \<Rightarrow> Continue | r \<Rightarrow> r);
                    set (fst (convert_found E G (strip (source_path G)) (strip (output_path G)) mf py))
                      \<subseteq> set (run E G sp);
                    quiet (fst (convert_found E G (strip (source_path G)) (strip (output_path G)) mf py))
                      \<and> (\<forall>m. snd (convert_found E G (strip (source_path G)) (strip (output_path G)) mf py)
                                 \<noteq> Raise (Exc m))
                      \<longrightarrow> quiet (run E G sp)\<rbrakk> \<Longrightarrow> P"
  shows P
proof (cases "reaches_scan E G sp")
  case False
  then show ?thesis
    using assms(1)
    by (auto simp: run_calls run_puts convert_try_calls convert_try_puts convert_try_snd
             split: outcome.splits exn.splits if_splits)
next
  case True
  from scanned_cases [of E G] consider
    (raised) e where "scanned E G = raise_exn e"
    | (none) "scanned E G =
       ([Logger ERROR ''No EXE or Python files found in source folder'',
         Put (''error'', PStr ''No EXE or Python files found in source folder''),
         Put (''done'', PNone)], Return)"
    | (target) mf py where "scanned E G =
         convert_found E G (strip (source_path G)) (strip (output_path G)) mf py"
    by blast
  then show ?thesis
  proof cases
    case raised
    then show ?thesis
      using True assms(1)
      by (auto simp: run_calls run_puts convert_try_calls convert_try_puts convert_try_snd
               split: outcome.splits exn.splits)
  next
    case none
    then show ?thesis
      using True assms(1)
      by (auto simp: run_calls run_puts convert_try_calls convert_try_puts convert_try_snd)
  next
    case target
    from True have pc: "calls (fst (provision E G sp)) = []"
      by (simp add: reaches_scan_def provision_continue_calls)
    from convert_try_reached [OF True] obtain pre where
      pre: "fst (convert_try E G sp) = pre @ fst (scanned E G)" by blast
    show ?thesis
    proof (rule assms(2) [of mf py])
      show "calls (run E G sp) =
              calls (fst (convert_found E G (strip (source_path G)) (strip (output_path G)) mf py))"
        using True target pc by (simp add: run_calls convert_try_calls)
      show "quiet (fst (convert_found E G (strip (source_path G)) (strip (output_path G)) mf py))
              \<and> (\<forall>m. snd (convert_found E G (strip (source_path G)) (strip (output_path G)) mf py)
                         \<noteq> Raise (Exc m))
              \<longrightarrow> quiet (run E G sp)"
        using run_quiet [OF True] target by simp
      show "set (fst (convert_found E G (strip (source_path G)) (strip (output_path G)) mf py))
              \<subseteq> set (run E G sp)"
        using pre target by (auto simp: run_eq)
      show "snd (convert_app E G sp) =
              (case snd (convert_found E G (strip (source_path G)) (strip (output_path G)) mf py) of
                 Raise (Exc m) \<Rightarrow> Continue | r \<Rightarrow> r)"
        using True target by (simp add: convert_app_snd convert_try_snd)
      show "puts (run E G sp) =
              [(''progress'', PInt 0), (''log'', PStr ''Starting conversion process...''),
               (''log'', PStr (''Scanning source directory: '' @ strip (source_path G)))]
              @ puts (fst (convert_found E G (strip (source_path G)) (strip (output_path G)) mf py))
              @ (case snd (convert_found E G (strip (source_path G)) (strip (output_path G)) mf py) of
                   Raise (Exc m) \<Rightarrow> [(''log'', PStr (''ERROR: An error occurred: '' @ m)),
                                      (''error'', PStr (''An error occurred: '' @ m))]
                 | _ \<Rightarrow> [])
              @ [(''done'', PNone)]"
        using True target by (simp add: run_puts convert_try_puts convert_try_snd)
    qed
  qed
qed

lemma convert_found_announces:
  "Put (''log'', PStr ((if py then ''Found Python file: '' else ''Found EXE file: '') @ mf))
     \<in> set (fst (convert_found E G src out mf py))"
  by (simp add: convert_found_def Let_def)

lemma run_target:
  assumes "os_path_exists E (pyinstaller_dep_path E G)"
    and "strip (source_path G) \<noteq> []" and "strip (output_path G) \<noteq> []"
    and "os_path_exists E (strip (source_path G))"
    and "os_listdir E (strip (source_path G)) = Inr names"
    and "convert_listed E G (strip (source_path G)) (strip (output_path G)) names
           = convert_found E G (strip (source_path G)) (strip (output_path G)) mf py"
  shows "calls (run E G sp)
           = calls (fst (convert_found E G (strip (source_path G)) (strip (output_path G)) mf py))"
    and "set (fst (convert_found E G (strip (source_path G)) (strip (output_path G)) mf py))
           \<subseteq> set (run E G sp)"
proof -
  have p: "snd (provision E G sp) = Continue"
    using assms(1) by (simp add: provision_snd)
  then have r: "reaches_scan E G sp"
    using assms(2-4) by (simp add: reaches_scan_def)
  have s: "scanned E G
             = convert_found E G (strip (source_path G)) (strip (output_path G)) mf py"
    using assms(5,6) by (simp add: scanned_def)
  show "calls (run E G sp)
           = calls (fst (convert_found E G (strip (source_path G)) (strip (output_path G)) mf py))"
    by (simp add: run_calls convert_try_calls r s provision_continue_calls [OF p])
  from convert_try_reached [OF r] obtain pre where
    "fst (convert_try E G sp) = pre @ fst (scanned E G)" by blast
  then show "set (fst (convert_found E G (strip (source_path G)) (strip (output_path G)) mf py))
           \<subseteq> set (run E G sp)"
    using s by (auto simp: run_eq)
qed

lemma found_all_ok_calls:
  assumes "os_path_exists E = (\<lambda>p. True)" and "open_write E = (\<lambda>p t. None)"
    and "import_PyInstaller E = None" and "PyInstaller_run E = (\<lambda>a. None)"
    and "os_remove E = (\<lambda>p. None)" and "shutil_rmtree E = (\<lambda>p. None)"
  shows "calls (fst (convert_found E G src out mf py)) =
     [(OpenWrite (os_path_join E src ''launcher.py'') (launcher_text py (os_path_basename E mf)), None),
      (ImportPyInstaller, None),
      (PyInstallerRun (bundler_args E (window_var G) (os_path_join E src ''launcher.py'') src out), None),
      (OsRemove (os_path_join E src ''launcher.py''), None),
      (ShutilRmtree (os_path_join E out ''build''), None),
      (OsRemove (os_path_join E out ''launcher.spec''), None)]"
  by (simp add: convert_found_calls_explicit Let_def prepare_output_calls prepare_output_snd
                cleanup_try_calls assms)

lemma demo_run_calls:
  assumes "os_path_exists E = (\<lambda>p. True)" and "os_path_join E = demo_join"
    and "os_path_basename E = demo_basename"
    and "open_write E = (\<lambda>p t. None)"
    and "import_PyInstaller E = None" and "PyInstaller_run E = (\<lambda>a. None)"
    and "os_remove E = (\<lambda>p. None)" and "shutil_rmtree E = (\<lambda>p. None)"
    and "strip (source_path G) = src" and "strip (output_path G) = out"
    and "src \<noteq> []" and "out \<noteq> []"
    and "dir_entries E src = Inr ents"
    and "convert_listed E G src out (map fst ents) = convert_found E G src out (demo_join src n) py"
    and "demo_basename (demo_join src n) = n"
  shows "calls (run E G sp) =
     [(OpenWrite (src @ ''/launcher.py'') (launcher_text py n), None),
      (ImportPyInstaller, None),
      (PyInstallerRun
         ([src @ ''/launcher.py'', ''--distpath'', out, ''--workpath'', out @ ''/build'',
           ''--specpath'', out, ''--onefile'', ''--add-data'', src @ ''/*;.'']
          @ (if window_var G then [''--windowed''] else [])), None),
      (OsRemove (src @ ''/launcher.py''), None),
      (ShutilRmtree (out @ ''/build''), None),
      (OsRemove (out @ ''/launcher.spec''), None)]"
proof -
  have l: "os_listdir E (strip (source_path G)) = Inr (map fst ents)"
    using assms(9,13) by (simp add: os_listdir_def)
  have c: "convert_listed E G (strip (source_path G)) (strip (output_path G)) (map fst ents)
           = convert_found E G (strip (source_path G)) (strip (output_path G)) (demo_join src n) py"
    using assms(9,10,14) by simp
  have "calls (run E G sp)
          = calls (fst (convert_found E G (strip (source_path G)) (strip (output_path G))
                     (demo_join src n) py))"
    by (rule run_target(1) [OF _ _ _ _ l c]) (simp_all add: assms(1,9,10,11,12))
  then have r: "calls (run E G sp)
          = calls (fst (convert_found E G src out (demo_join src n) py))"
    by (simp add: assms(9,10))
  note f = found_all_ok_calls [OF assms(1,4,5,6,7,8), of G src out "demo_join src n" py]
  show ?thesis
    unfolding r f by (simp add: assms(2,3,15) bundler_args_def) (simp add: demo_join_def)
qed

lemma demo_windowed_calls:
  "calls (run demo_env gui_windowed []) =
     [(OpenWrite ''src/launcher.py'' (launcher_text True ''app.py''), None),
      (ImportPyInstaller, None),
      (PyInstallerRun [''src/launcher.py'', ''--distpath'', ''out'', ''--workpath'', ''out/build'',
                       ''--specpath'', ''out'', ''--onefile'', ''--add-data'', ''src/*;.'',
                       ''--windowed''], None),
      (OsRemove ''src/launcher.py'', None),
      (ShutilRmtree ''out/build'', None),
      (OsRemove ''out/launcher.spec'', None)]"
  by (subst demo_run_calls [where src = "''src''" and out = "''out''" and n = "''app.py''"
                              and py = True
                              and ents = "[(''data.txt'', RegularFile), (''app.py'', RegularFile)]"])
     (simp_all add: demo_env_def gui_windowed_def demo_gui_def convert_listed_def Let_def
                    endswith_def suffix_to_prefix demo_join_def demo_basename_def)

lemma strip_flag [simp]: "strip ''--windowed'' = ''--windowed''"
  by (simp add: strip_def isspace_def)

lemma demo_flag_output_calls:
  "calls (run demo_env gui_flag_output []) =
     [(OpenWrite ''src/launcher.py'' (launcher_text True ''app.py''), None),
      (ImportPyInstaller, None),
      (PyInstallerRun [''src/launcher.py'', ''--distpath'', ''--windowed'', ''--workpath'',
                       ''--windowed/build'', ''--specpath'', ''--windowed'', ''--onefile'',
                       ''--add-data'', ''src/*;.''], None),
      (OsRemove ''src/launcher.py'', None),
      (ShutilRmtree ''--windowed/build'', None),
      (OsRemove ''--windowed/launcher.spec'', None)]"
  by (subst demo_run_calls [where src = "''src''" and out = "''--windowed''" and n = "''app.py''"
                              and py = True
                              and ents = "[(''data.txt'', RegularFile), (''app.py'', RegularFile)]"])
     (simp_all add: demo_env_def gui_flag_output_def demo_gui_def convert_listed_def Let_def
                    endswith_def suffix_to_prefix demo_join_def demo_basename_def)

lemma demo_script_dir_calls:
  "calls (run env_script_dir demo_gui []) =
     [(OpenWrite ''src/launcher.py'' (launcher_text True ''pkg.py''), None),
      (ImportPyInstaller, None),
      (PyInstallerRun [''src/launcher.py'', ''--distpath'', ''out'', ''--workpath'', ''out/build'',
                       ''--specpath'', ''out'', ''--onefile'', ''--add-data'', ''src/*;.''], None),
      (OsRemove ''src/launcher.py'', None),
      (ShutilRmtree ''out/build'', None),
      (OsRemove ''out/launcher.spec'', None)]"
  by (subst demo_run_calls [where src = "''src''" and out = "''out''" and n = "''pkg.py''"
                              and py = True
                              and ents = "[(''data.txt'', RegularFile), (''pkg.py'', Directory)]"])
     (simp_all add: env_script_dir_def demo_env_def demo_gui_def convert_listed_def Let_def
                    endswith_def suffix_to_prefix demo_join_def demo_basename_def)





lemma check_dep_listing:
  "check_dep (E\<lparr>dir_entries := X\<rparr>) dep_name info dep_path = check_dep E dep_name info dep_path"
  by (simp add: check_dep_def install_try_def Let_def)

lemma deps_loop_listing:
  "deps_loop (E\<lparr>dir_entries := X\<rparr>) G ds installed sp = deps_loop E G ds installed sp"
proof (induction ds arbitrary: installed sp)
  case Nil
  show ?case by simp
next
  case (Cons d ds)
  obtain dep_name info where d: "d = (dep_name, info)" by (cases d)
  show ?case
    unfolding d by (simp add: check_dep_listing Cons.IH Let_def split: outcome.splits)
qed

lemma provision_listing:
  "provision (E\<lparr>dir_entries := X\<rparr>) G sp = provision E G sp"
  by (simp add: provision_def ensure_dependencies_def deps_loop_listing)

lemma convert_found_listing:
  "convert_found (E\<lparr>dir_entries := X\<rparr>) G src out mf py = convert_found E G src out mf py"
  by (simp add: convert_found_def prepare_output_def write_launcher_def bundle_stage_def
                bundle_try_def cleanup_stage_def cleanup_try_def Let_def)

lemma convert_listed_listing:
  "convert_listed (E\<lparr>dir_entries := X\<rparr>) G src out names = convert_listed E G src out names"
  by (simp add: convert_listed_def convert_found_listing Let_def)

lemma os_listdir_relabel:
  "os_listdir (E\<lparr>dir_entries := \<lambda>d. case dir_entries E d of
                                         Inl e \<Rightarrow> Inl e
                                       | Inr ents \<Rightarrow> Inr (map (\<lambda>(n, k). (n, kind d n k)) ents)\<rparr>) p
     = os_listdir E p"
  by (simp add: os_listdir_def comp_def case_prod_unfold split: sum.splits)

lemma convert_try_relabel:
  "convert_try (E\<lparr>dir_entries := \<lambda>d. case dir_entries E d of
                                         Inl e \<Rightarrow> Inl e
                                       | Inr ents \<Rightarrow> Inr (map (\<lambda>(n, k). (n, kind d n k)) ents)\<rparr>) G sp
     = convert_try E G sp"
  unfolding convert_try_def Let_def os_listdir_relabel provision_listing convert_listed_listing
  by simp

lemma run_relabel:
  "run (E\<lparr>dir_entries := \<lambda>d. case dir_entries E d of
                                         Inl e \<Rightarrow> Inl e
                                       | Inr ents \<Rightarrow> Inr (map (\<lambda>(n, k). (n, kind d n k)) ents)\<rparr>) G sp
     = run E G sp"
  by (simp add: run_def convert_app_def convert_try_relabel)

lemma run_target_exe:
  assumes "os_path_exists E (pyinstaller_dep_path E G)"
    and "strip (source_path G) \<noteq> []" and "strip (output_path G) \<noteq> []"
    and "os_path_exists E (strip (source_path G))"
    and "os_listdir E (strip (source_path G)) = Inr names"
    and "names = pre @ n # post" and "endswith n ''.exe''"
    and "\<forall>f\<in>set pre. \<not> endswith f ''.exe''"
  shows "Put (''log'', PStr (''Found EXE file: '' @ os_path_join E (strip (source_path G)) n))
           \<in> set (run E G sp)
       \<and> calls (run E G sp)
           = calls (fst (convert_found E G (strip (source_path G)) (strip (output_path G))
                           (os_path_join E (strip (source_path G)) n) False))"
proof -
  note c = convert_listed_exe [OF assms(6,7,8), of E G "strip (source_path G)" "strip (output_path G)"]
  note t = run_target [OF assms(1-5) c, of sp]
  show ?thesis
    using t(2) convert_found_announces [of False "os_path_join E (strip (source_path G)) n" E G
            "strip (source_path G)" "strip (output_path G)"]
    by (auto simp: t(1))
qed

lemma run_target_py:
  assumes "os_path_exists E (pyinstaller_dep_path E G)"
    and "strip (source_path G) \<noteq> []" and "strip (output_path G) \<noteq> []"
    and "os_path_exists E (strip (source_path G))"
    and "os_listdir E (strip (source_path G)) = Inr names"
    and "names = pre @ n # post" and "endswith n ''.py''"
    and "\<forall>f\<in>set pre. \<not> endswith f ''.py''"
    and "\<forall>f\<in>set names. \<not> endswith f ''.exe''"
  shows "Put (''log'', PStr (''Found Python file: '' @ os_path_join E (strip (source_path G)) n))
           \<in> set (run E G sp)
       \<and> calls (run E G sp)
           = calls (fst (convert_found E G (strip (source_path G)) (strip (output_path G))
                           (os_path_join E (strip (source_path G)) n) True))"
proof -
  note c = convert_listed_py [OF assms(6,7,8,9), of E G "strip (source_path G)" "strip (output_path G)"]
  note t = run_target [OF assms(1-5) c, of sp]
  show ?thesis
    using t(2) convert_found_announces [of True "os_path_join E (strip (source_path G)) n" E G
            "strip (source_path G)" "strip (output_path G)"]
    by (auto simp: t(1))
qed

lemma found_import_then_run:
  assumes "(ImportPyInstaller, None) \<in> set (calls (fst (convert_found E G src out mf py)))"
  shows "(PyInstallerRun (bundler_args E (window_var G) (os_path_join E src ''launcher.py'') src out),
          PyInstaller_run E (bundler_args E (window_var G) (os_path_join E src ''launcher.py'') src out))
           \<in> set (calls (fst (convert_found E G src out mf py)))"
  using assms
  by (auto simp: convert_found_calls_explicit Let_def
           dest: prepare_output_calls_kinds cleanup_try_calls_kinds split: if_splits)





section \<open>The claims\<close>

subsection \<open>C1: one \<open>done\<close> event per conversion\<close>

text \<open>
  C1 says that every conversion run enqueues exactly one \<^verbatim>\<open>('done', _)\<close> event, validation
  failures included.  The code does not: each validation branch puts \<^verbatim>\<open>done\<close> itself and
  then returns through the \<^verbatim>\<open>finally\<close> clause, which puts it again.  With an empty source
  field and the dependency installed, the run enqueues an error event followed by two
  \<^verbatim>\<open>done\<close> events.
\<close>

theorem blank_source_posts_done_twice: 
  "puts (run demo_env gui_blank []) =
     [(''error'', PStr ''Please select source and output folders''),
      (''done'', PNone), (''done'', PNone)]
   \<and> length (filter (\<lambda>ev. fst ev = ''done'') (puts (run demo_env gui_blank []))) = 2"
proof -
  have p: "snd (provision demo_env gui_blank []) = Continue"
    by (simp add: demo_provision demo_env_def)
  have r: "\<not> reaches_scan demo_env gui_blank []"
    by (simp add: reaches_scan_def gui_blank_def demo_gui_def)
  have "puts (run demo_env gui_blank []) =
     [(''error'', PStr ''Please select source and output folders''),
      (''done'', PNone), (''done'', PNone)]"
    by (simp add: run_puts convert_try_puts convert_try_snd r p)
       (simp add: gui_blank_def demo_gui_def)
  then show ?thesis by simp
qed

subsection \<open>C2: the scanner's policy\<close>

text \<open>
  C2: in a listing, the first name ending in \<^verbatim>\<open>.exe\<close> is the target, whatever scripts the
  listing holds and wherever they stand; with no such name, the first name ending in
  \<^verbatim>\<open>.py\<close> is the target; with neither, the scan reports the not-found error and returns, so
  that no later stage runs: a run that gets as far as the scan makes no outside call at all
  and enqueues only the progress 0, the two log lines, the error and \<^verbatim>\<open>done\<close>.  A run
  that gets as far as the scan with a listing that has a target announces that target as
  found and makes the outside calls of the later stages for it, and no other.
\<close>

theorem scanner_policy:
  "(names = pre @ n # post \<and> endswith n ''.exe'' \<and> (\<forall>f\<in>set pre. \<not> endswith f ''.exe'') \<longrightarrow>
      convert_listed E G src out names = convert_found E G src out (os_path_join E src n) False)
   \<and> (names = pre @ n # post \<and> endswith n ''.py'' \<and> (\<forall>f\<in>set pre. \<not> endswith f ''.py'')
        \<and> (\<forall>f\<in>set names. \<not> endswith f ''.exe'') \<longrightarrow>
      convert_listed E G src out names = convert_found E G src out (os_path_join E src n) True)
   \<and> ((\<forall>f\<in>set names. \<not> endswith f ''.exe'' \<and> \<not> endswith f ''.py'') \<longrightarrow>
      convert_listed E G src out names =
        ([Logger ERROR ''No EXE or Python files found in source folder'',
          Put (''error'', PStr ''No EXE or Python files found in source folder''),
          Put (''done'', PNone)], Return))
   \<and> (os_path_exists E (pyinstaller_dep_path E G) \<and> strip (source_path G) \<noteq> []
        \<and> strip (output_path G) \<noteq> [] \<and> os_path_exists E (strip (source_path G))
        \<and> os_listdir E (strip (source_path G)) = Inr names
        \<and> (\<forall>f\<in>set names. \<not> endswith f ''.exe'' \<and> \<not> endswith f ''.py'') \<longrightarrow>
      puts (run E G sp) =
        [(''progress'', PInt 0),
         (''log'', PStr ''Starting conversion process...''),
         (''log'', PStr (''Scanning source directory: '' @ strip (source_path G))),
         (''error'', PStr ''No EXE or Python files found in source folder''),
         (''done'', PNone), (''done'', PNone)]
      \<and> calls (run E G sp) = []
      \<and> snd (convert_app E G sp) = Return)
   \<and> (os_path_exists E (pyinstaller_dep_path E G) \<and> strip (source_path G) \<noteq> []
        \<and> strip (output_path G) \<noteq> [] \<and> os_path_exists E (strip (source_path G))
        \<and> os_listdir E (strip (source_path G)) = Inr names
        \<and> names = pre @ n # post \<and> endswith n ''.exe''
        \<and> (\<forall>f\<in>set pre. \<not> endswith f ''.exe'') \<longrightarrow>
      Put (''log'', PStr (''Found EXE file: '' @ os_path_join E (strip (source_path G)) n))
        \<in> set (run E G sp)
      \<and> calls (run E G sp)
          = calls (fst (convert_found E G (strip (source_path G)) (strip (output_path G))
                          (os_path_join E (strip (source_path G)) n) False)))
   \<and> (os_path_exists E (pyinstaller_dep_path E G) \<and> strip (source_path G) \<noteq> []
        \<and> strip (output_path G) \<noteq> [] \<and> os_path_exists E (strip (source_path G))
        \<and> os_listdir E (strip (source_path G)) = Inr names
        \<and> names = pre @ n # post \<and> endswith n ''.py''
        \<and> (\<forall>f\<in>set pre. \<not> endswith f ''.py'')
        \<and> (\<forall>f\<in>set names. \<not> endswith f ''.exe'') \<longrightarrow>
      Put (''log'', PStr (''Found Python file: '' @ os_path_join E (strip (source_path G)) n))
        \<in> set (run E G sp)
      \<and> calls (run E G sp)
          = calls (fst (convert_found E G (strip (source_path G)) (strip (output_path G))
                          (os_path_join E (strip (source_path G)) n) True)))"
proof -
  note 1 = convert_listed_exe [of names pre n post E G src out]
  note 2 = convert_listed_py [of names pre n post E G src out]
  note 3 = convert_listed_none [of names E G src out]
  note 4 = run_no_target [of E G names sp]
  note 5 = run_target_exe [of E G names pre n post sp]
  note 6 = run_target_py [of E G names pre n post sp]
  show ?thesis
    by (intro conjI impI; (elim conjE)?; (rule 1 2 3 4 5 [THEN conjunct1] 5 [THEN conjunct2]
          6 [THEN conjunct1] 6 [THEN conjunct2]; assumption))
qed

theorem scanner_policy_witness:
  "(endswith ''tool.exe'' ''.exe'' \<and> \<not> endswith ''a.py'' ''.exe'')
   \<and> convert_listed demo_env demo_gui ''src'' ''out'' [''a.py'', ''tool.exe'', ''b.exe'']
       = convert_found demo_env demo_gui ''src'' ''out'' (os_path_join demo_env ''src'' ''tool.exe'') False
   \<and> (endswith ''app.py'' ''.py'' \<and> \<not> endswith ''data.txt'' ''.py''
      \<and> \<not> endswith ''data.txt'' ''.exe'' \<and> \<not> endswith ''app.py'' ''.exe''
      \<and> \<not> endswith ''b.py'' ''.exe'')
   \<and> convert_listed demo_env demo_gui ''src'' ''out'' [''data.txt'', ''app.py'', ''b.py'']
       = convert_found demo_env demo_gui ''src'' ''out'' (os_path_join demo_env ''src'' ''app.py'') True
   \<and> convert_listed env_no_target demo_gui ''src'' ''out'' [''data.txt'']
       = ([Logger ERROR ''No EXE or Python files found in source folder'',
           Put (''error'', PStr ''No EXE or Python files found in source folder''),
           Put (''done'', PNone)], Return)
   \<and> (os_path_exists env_no_target (pyinstaller_dep_path env_no_target demo_gui)
      \<and> strip (source_path demo_gui) \<noteq> [] \<and> strip (output_path demo_gui) \<noteq> []
      \<and> os_path_exists env_no_target (strip (source_path demo_gui))
      \<and> os_listdir env_no_target (strip (source_path demo_gui)) = Inr [''data.txt''])
   \<and> (puts (run env_no_target demo_gui []) =
        [(''progress'', PInt 0),
         (''log'', PStr ''Starting conversion process...''),
         (''log'', PStr (''Scanning source directory: '' @ strip (source_path demo_gui))),
         (''error'', PStr ''No EXE or Python files found in source folder''),
         (''done'', PNone), (''done'', PNone)]
      \<and> calls (run env_no_target demo_gui []) = []
      \<and> snd (convert_app env_no_target demo_gui []) = Return)
   \<and> os_listdir env_two_kinds (strip (source_path demo_gui)) = Inr [''a.py'', ''tool.exe'', ''b.exe'']
   \<and> Put (''log'', PStr ''Found EXE file: src/tool.exe'') \<in> set (run env_two_kinds demo_gui [])
   \<and> calls (run env_two_kinds demo_gui [])
       = calls (fst (convert_found env_two_kinds demo_gui ''src'' ''out'' ''src/tool.exe'' False))
   \<and> os_listdir demo_env (strip (source_path demo_gui)) = Inr [''data.txt'', ''app.py'']
   \<and> Put (''log'', PStr ''Found Python file: src/app.py'') \<in> set (run demo_env demo_gui [])
   \<and> calls (run demo_env demo_gui [])
       = calls (fst (convert_found demo_env demo_gui ''src'' ''out'' ''src/app.py'' True))"
proof -
  have h1: "[''a.py'', ''tool.exe'', ''b.exe''] = [''a.py''] @ ''tool.exe'' # [''b.exe'']
      \<and> endswith ''tool.exe'' ''.exe'' \<and> (\<forall>f\<in>set [''a.py'']. \<not> endswith f ''.exe'')"
    by (simp add: endswith_def suffix_to_prefix)
  have c1: "convert_listed demo_env demo_gui ''src'' ''out'' [''a.py'', ''tool.exe'', ''b.exe'']
       = convert_found demo_env demo_gui ''src'' ''out'' (os_path_join demo_env ''src'' ''tool.exe'') False"
    by (rule scanner_policy [THEN conjunct1, THEN mp, OF h1])
  have h2: "[''data.txt'', ''app.py'', ''b.py''] = [''data.txt''] @ ''app.py'' # [''b.py'']
      \<and> endswith ''app.py'' ''.py'' \<and> (\<forall>f\<in>set [''data.txt'']. \<not> endswith f ''.py'')
      \<and> (\<forall>f\<in>set [''data.txt'', ''app.py'', ''b.py'']. \<not> endswith f ''.exe'')"
    by (simp add: endswith_def suffix_to_prefix)
  have c2: "convert_listed demo_env demo_gui ''src'' ''out'' [''data.txt'', ''app.py'', ''b.py'']
       = convert_found demo_env demo_gui ''src'' ''out'' (os_path_join demo_env ''src'' ''app.py'') True"
    by (rule scanner_policy [THEN conjunct2, THEN conjunct1, THEN mp, OF h2])
  have h3: "\<forall>f\<in>set [''data.txt'']. \<not> endswith f ''.exe'' \<and> \<not> endswith f ''.py''"
    by (simp add: endswith_def suffix_to_prefix)
  have c3: "convert_listed env_no_target demo_gui ''src'' ''out'' [''data.txt'']
       = ([Logger ERROR ''No EXE or Python files found in source folder'',
           Put (''error'', PStr ''No EXE or Python files found in source folder''),
           Put (''done'', PNone)], Return)"
    by (rule scanner_policy [THEN conjunct2, THEN conjunct2, THEN conjunct1, THEN mp, OF h3])
  have h4: "os_path_exists env_no_target (pyinstaller_dep_path env_no_target demo_gui)
      \<and> strip (source_path demo_gui) \<noteq> [] \<and> strip (output_path demo_gui) \<noteq> []
      \<and> os_path_exists env_no_target (strip (source_path demo_gui))
      \<and> os_listdir env_no_target (strip (source_path demo_gui)) = Inr [''data.txt'']
      \<and> (\<forall>f\<in>set [''data.txt'']. \<not> endswith f ''.exe'' \<and> \<not> endswith f ''.py'')"
    by (simp add: env_no_target_def demo_env_def demo_gui_def os_listdir_def
                  endswith_def suffix_to_prefix)
  have c4: "puts (run env_no_target demo_gui []) =
        [(''progress'', PInt 0),
         (''log'', PStr ''Starting conversion process...''),
         (''log'', PStr (''Scanning source directory: '' @ strip (source_path demo_gui))),
         (''error'', PStr ''No EXE or Python files found in source folder''),
         (''done'', PNone), (''done'', PNone)]
      \<and> calls (run env_no_target demo_gui []) = []
      \<and> snd (convert_app env_no_target demo_gui []) = Return"
    by (rule scanner_policy [THEN conjunct2, THEN conjunct2, THEN conjunct2, THEN conjunct1,
              THEN mp, OF h4])
  have e1: "endswith ''tool.exe'' ''.exe'' \<and> \<not> endswith ''a.py'' ''.exe''"
    by (simp add: endswith_def suffix_to_prefix)
  have e2: "endswith ''app.py'' ''.py'' \<and> \<not> endswith ''data.txt'' ''.py''
      \<and> \<not> endswith ''data.txt'' ''.exe'' \<and> \<not> endswith ''app.py'' ''.exe''
      \<and> \<not> endswith ''b.py'' ''.exe''"
    by (simp add: endswith_def suffix_to_prefix)
  have e4: "os_path_exists env_no_target (pyinstaller_dep_path env_no_target demo_gui)
      \<and> strip (source_path demo_gui) \<noteq> [] \<and> strip (output_path demo_gui) \<noteq> []
      \<and> os_path_exists env_no_target (strip (source_path demo_gui))
      \<and> os_listdir env_no_target (strip (source_path demo_gui)) = Inr [''data.txt'']"
    by (simp add: env_no_target_def demo_env_def demo_gui_def os_listdir_def)
  have s: "strip (source_path demo_gui) = ''src''" "strip (output_path demo_gui) = ''out''"
    by (simp_all add: demo_gui_def)
  have l5: "os_listdir env_two_kinds (strip (source_path demo_gui))
              = Inr [''a.py'', ''tool.exe'', ''b.exe'']"
    by (simp add: env_two_kinds_def demo_env_def os_listdir_def)
  have h5: "os_path_exists env_two_kinds (pyinstaller_dep_path env_two_kinds demo_gui)
      \<and> strip (source_path demo_gui) \<noteq> [] \<and> strip (output_path demo_gui) \<noteq> []
      \<and> os_path_exists env_two_kinds (strip (source_path demo_gui))
      \<and> os_listdir env_two_kinds (strip (source_path demo_gui))
          = Inr [''a.py'', ''tool.exe'', ''b.exe'']
      \<and> [''a.py'', ''tool.exe'', ''b.exe''] = [''a.py''] @ ''tool.exe'' # [''b.exe'']
      \<and> endswith ''tool.exe'' ''.exe''
      \<and> (\<forall>f\<in>set [''a.py'']. \<not> endswith f ''.exe'')"
    using l5 by (simp add: s env_two_kinds_def demo_env_def endswith_def suffix_to_prefix)
  have j5: "os_path_join env_two_kinds ''src'' ''tool.exe'' = ''src/tool.exe''"
    by (simp add: env_two_kinds_def demo_env_def demo_join_def)
  note r5 = scanner_policy [THEN conjunct2, THEN conjunct2, THEN conjunct2, THEN conjunct2,
              THEN conjunct1, THEN mp, OF h5, unfolded s j5]
  have c5: "Put (''log'', PStr ''Found EXE file: src/tool.exe'') \<in> set (run env_two_kinds demo_gui [])"
    using r5 [THEN conjunct1] by simp
  have c6: "calls (run env_two_kinds demo_gui [])
       = calls (fst (convert_found env_two_kinds demo_gui ''src'' ''out'' ''src/tool.exe'' False))"
    by (rule r5 [THEN conjunct2])
  have l7: "os_listdir demo_env (strip (source_path demo_gui)) = Inr [''data.txt'', ''app.py'']"
    by (simp add: demo_env_def os_listdir_def)
  have h7: "os_path_exists demo_env (pyinstaller_dep_path demo_env demo_gui)
      \<and> strip (source_path demo_gui) \<noteq> [] \<and> strip (output_path demo_gui) \<noteq> []
      \<and> os_path_exists demo_env (strip (source_path demo_gui))
      \<and> os_listdir demo_env (strip (source_path demo_gui)) = Inr [''data.txt'', ''app.py'']
      \<and> [''data.txt'', ''app.py''] = [''data.txt''] @ ''app.py'' # []
      \<and> endswith ''app.py'' ''.py''
      \<and> (\<forall>f\<in>set [''data.txt'']. \<not> endswith f ''.py'')
      \<and> (\<forall>f\<in>set [''data.txt'', ''app.py'']. \<not> endswith f ''.exe'')"
    using l7 by (simp add: s demo_env_def endswith_def suffix_to_prefix)
  have j7: "os_path_join demo_env ''src'' ''app.py'' = ''src/app.py''"
    by (simp add: demo_env_def demo_join_def)
  note r7 = scanner_policy [THEN conjunct2, THEN conjunct2, THEN conjunct2, THEN conjunct2,
              THEN conjunct2, THEN mp, OF h7, unfolded s j7]
  have c7: "Put (''log'', PStr ''Found Python file: src/app.py'') \<in> set (run demo_env demo_gui [])"
    using r7 [THEN conjunct1] by simp
  have c8: "calls (run demo_env demo_gui [])
       = calls (fst (convert_found demo_env demo_gui ''src'' ''out'' ''src/app.py'' True))"
    by (rule r7 [THEN conjunct2])
  show ?thesis
    by (rule e1 c1 e2 c2 c3 e4 c4 l5 c5 c6 l7 c7 c8 conjI)+
qed

subsection \<open>C3: the launcher stub after the conversion\<close>

text \<open>
  C3 says that a stub that was written is deleted by the end of the conversion, also when
  the bundler raises.  The source names the stub \<^verbatim>\<open>temp_script\<close>, creates it as a temporary
  script, and deletes it first in the block that cleans up the temporary files.  That block
  follows the \<^verbatim>\<open>try\<close> statement of the bundler, whose handler raises again, so it is skipped
  when the bundler raises.  With a bundler that raises, the run writes \<^verbatim>\<open>src/launcher.py\<close>,
  imports and calls the bundler, and calls nothing more: the stub is not removed.  The same
  run with a bundler that returns removes the stub.
\<close>

theorem stub_left_after_bundler_failure:
  "calls (run env_bundler_fails demo_gui []) =
     [(OpenWrite ''src/launcher.py'' (launcher_text True ''app.py''), None),
      (ImportPyInstaller, None),
      (PyInstallerRun [''src/launcher.py'', ''--distpath'', ''out'', ''--workpath'', ''out/build'',
                       ''--specpath'', ''out'', ''--onefile'', ''--add-data'', ''src/*;.''],
       Some (Exc ''boom''))]
   \<and> OsRemove ''src/launcher.py'' \<notin> fst ` set (calls (run env_bundler_fails demo_gui []))
   \<and> (OsRemove ''src/launcher.py'', None) \<in> set (calls (run demo_env demo_gui []))"
  by (simp add: demo_bundler_fails_calls demo_ok_calls)

subsection \<open>C4: the launcher stub and the name of the target\<close>


subsection \<open>C5: the arguments of the bundler\<close>

text \<open>
  C5 says that the argument list contains the windowed flag if and only if the window
  option is set.  The two path fields are passed as they were typed (white space at the
  ends removed), so an output field that spells the flag puts its text in the list with the
  option off.
\<close>

theorem windowed_text_without_option:
  "\<not> window_var gui_flag_output
   \<and> (PyInstallerRun [''src/launcher.py'', ''--distpath'', ''--windowed'', ''--workpath'',
                      ''--windowed/build'', ''--specpath'', ''--windowed'', ''--onefile'',
                      ''--add-data'', ''src/*;.''], None)
       \<in> set (calls (run demo_env gui_flag_output []))
   \<and> ''--windowed'' \<in> set [''src/launcher.py'', ''--distpath'', ''--windowed'', ''--workpath'',
                            ''--windowed/build'', ''--specpath'', ''--windowed'', ''--onefile'',
                            ''--add-data'', ''src/*;.'']"
proof -
  have "\<not> window_var gui_flag_output"
    by (simp add: gui_flag_output_def demo_gui_def)
  then show ?thesis
    by (simp add: demo_flag_output_calls)
qed

text \<open>
  C5 as amended: a run in which the import of the bundler succeeds calls the bundler, and
  every call of the bundler in a run has exactly these arguments: the stub path, the
  distribution directory, the work directory \<^verbatim>\<open>build\<close> under it, the spec directory, the
  one-file flag and the data spec from the source directory's contents to the root, and
  after these ten the flag \<^verbatim>\<open>--windowed\<close> if and only if the window option is set.  When
  none of the ten spells the flag, the list contains the flag if and only if the option is
  set.
\<close>

theorem bundler_arguments:
  "((ImportPyInstaller, None) \<in> set (calls (run E G sp)) \<longrightarrow>
      (PyInstallerRun
         ([os_path_join E (strip (source_path G)) ''launcher.py'',
           ''--distpath'', strip (output_path G),
           ''--workpath'', os_path_join E (strip (output_path G)) ''build'',
           ''--specpath'', strip (output_path G),
           ''--onefile'',
           ''--add-data'', strip (source_path G) @ ''/*;.'']
          @ (if window_var G then [''--windowed''] else [])),
       PyInstaller_run E
         ([os_path_join E (strip (source_path G)) ''launcher.py'',
           ''--distpath'', strip (output_path G),
           ''--workpath'', os_path_join E (strip (output_path G)) ''build'',
           ''--specpath'', strip (output_path G),
           ''--onefile'',
           ''--add-data'', strip (source_path G) @ ''/*;.'']
          @ (if window_var G then [''--windowed''] else [])))
        \<in> set (calls (run E G sp)))
   \<and> ((PyInstallerRun args, r) \<in> set (calls (run E G sp)) \<longrightarrow>
        args = [os_path_join E (strip (source_path G)) ''launcher.py'',
                ''--distpath'', strip (output_path G),
                ''--workpath'', os_path_join E (strip (output_path G)) ''build'',
                ''--specpath'', strip (output_path G),
                ''--onefile'',
                ''--add-data'', strip (source_path G) @ ''/*;.'']
               @ (if window_var G then [''--windowed''] else [])
      \<and> drop 10 args = (if window_var G then [''--windowed''] else [])
      \<and> (''--windowed'' \<notin> set (take 10 args) \<longrightarrow>
            (''--windowed'' \<in> set args \<longleftrightarrow> window_var G)))"
proof (cases rule: run_cases [of E G sp])
  case stopped
  then show ?thesis by (auto dest: provision_calls_kinds)
next
  case (found mf py)
  let ?src = "strip (source_path G)" and ?out = "strip (output_path G)"
  let ?a = "bundler_args E (window_var G) (os_path_join E ?src ''launcher.py'') ?src ?out"
  have 1: "(PyInstallerRun ?a, PyInstaller_run E ?a) \<in> set (calls (run E G sp))"
    if "(ImportPyInstaller, None) \<in> set (calls (run E G sp))"
    using that found(1) by (simp add: found_import_then_run)
  have 2: "args = ?a" if "(PyInstallerRun args, r) \<in> set (calls (run E G sp))"
    using that found(1) by (auto dest: found_bundler_args)
  have 3: "drop 10 ?a = (if window_var G then [''--windowed''] else [])"
    "''--windowed'' \<notin> set (take 10 ?a) \<longrightarrow> (''--windowed'' \<in> set ?a \<longleftrightarrow> window_var G)"
    by (auto simp: bundler_args_def)
  show ?thesis
    using 1 2 3 unfolding bundler_args_def by blast
qed

theorem bundler_arguments_witness:
  "(ImportPyInstaller, None) \<in> set (calls (run demo_env gui_windowed []))
   \<and> (PyInstallerRun [''src/launcher.py'', ''--distpath'', ''out'', ''--workpath'', ''out/build'',
                      ''--specpath'', ''out'', ''--onefile'', ''--add-data'', ''src/*;.'',
                      ''--windowed''], None)
       \<in> set (calls (run demo_env gui_windowed []))
   \<and> window_var gui_windowed
   \<and> (PyInstallerRun [''src/launcher.py'', ''--distpath'', ''out'', ''--workpath'', ''out/build'',
                      ''--specpath'', ''out'', ''--onefile'', ''--add-data'', ''src/*;.''], None)
       \<in> set (calls (run demo_env demo_gui []))
   \<and> \<not> window_var demo_gui"
proof -
  have h: "(ImportPyInstaller, None) \<in> set (calls (run demo_env gui_windowed []))"
    by (simp add: demo_windowed_calls)
  have w: "window_var gui_windowed" "\<not> window_var demo_gui"
    by (simp_all add: gui_windowed_def demo_gui_def)
  have s: "strip (source_path gui_windowed) = ''src''" "strip (output_path gui_windowed) = ''out''"
    by (simp_all add: gui_windowed_def demo_gui_def)
  have j: "os_path_join demo_env = demo_join" "PyInstaller_run demo_env = (\<lambda>a. None)"
    by (simp_all add: demo_env_def)
  have c: "(PyInstallerRun [''src/launcher.py'', ''--distpath'', ''out'', ''--workpath'', ''out/build'',
                      ''--specpath'', ''out'', ''--onefile'', ''--add-data'', ''src/*;.'',
                      ''--windowed''], None)
       \<in> set (calls (run demo_env gui_windowed []))"
    using bundler_arguments [of demo_env gui_windowed "[]", THEN conjunct1, THEN mp, OF h]
    unfolding s j by (simp add: w demo_join_def)
  have d: "(PyInstallerRun [''src/launcher.py'', ''--distpath'', ''out'', ''--workpath'', ''out/build'',
                      ''--specpath'', ''out'', ''--onefile'', ''--add-data'', ''src/*;.''], None)
       \<in> set (calls (run demo_env demo_gui []))"
    by (simp add: demo_ok_calls)
  show ?thesis
    by (rule h c w d conjI)+
qed

subsection \<open>C6: the dependency provisioner\<close>

text \<open>
  C6: when \<open>ensure_dependencies\<close> returns, it returns true exactly if a declared
  dependency's install path did not exist; it has then downloaded the archive to the
  temporary file, extracted it to the install path and deleted the temporary file, in this
  order and each without error, and scheduled the shutdown; otherwise it has made no outside
  call.  When it returns true, the run consists of the provisioner's actions and the
  \<^verbatim>\<open>done\<close> event, and returns.  When the download or the extraction raises an
  \<^verbatim>\<open>Exception\<close>, \<open>ensure_dependencies\<close> raises it, and the run reports it as an error.
\<close>

theorem provisioner_contract:
  "(let dp = pyinstaller_dep_path E G;
        tmp = os_path_join E (tempfile_gettempdir E) ''pyinstaller.tar.gz'';
        u = url (snd (hd DEPENDENCIES))
    in (\<forall>as sp' b. ensure_dependencies E G sp = (as, sp', Inr b) \<longrightarrow>
          (b \<longleftrightarrow> (\<exists>d\<in>set DEPENDENCIES. \<not> os_path_exists E
                      (os_path_join E (deps_dir G) (fst d @ ''-'' @ version (snd d)))))
        \<and> calls as =
            (if b then [(UrlRetrieve u tmp, None), (ZipExtractall tmp dp, None),
                        (OsRemove tmp, None), (WindowAfterDestroy, None)]
             else []))
     \<and> (snd (snd (ensure_dependencies E G sp)) = Inr True \<longrightarrow>
          run E G sp = Logger INFO ''Starting app conversion'' # fst (ensure_dependencies E G sp)
                        @ [Put (''done'', PNone)]
        \<and> snd (convert_app E G sp) = Return)
     \<and> (\<forall>m. \<not> os_path_exists E dp
             \<and> (urlretrieve E u tmp = Some (Exc m)
                \<or> urlretrieve E u tmp = None \<and> zip_extractall E tmp dp = Some (Exc m)) \<longrightarrow>
          snd (snd (ensure_dependencies E G sp)) = Inl (Exc m)
        \<and> puts (run E G sp) =
            [(''log'', PStr (''ERROR: An error occurred: '' @ m)),
             (''error'', PStr (''An error occurred: '' @ m)),
             (''done'', PNone)]
        \<and> snd (convert_app E G sp) = Continue))"
proof -
  let ?dp = "pyinstaller_dep_path E G"
  let ?tmp = "os_path_join E (tempfile_gettempdir E) ''pyinstaller.tar.gz''"
  let ?u = "url (snd (hd DEPENDENCIES))"
  let ?it = "install_try E ''pyinstaller'' (snd (hd DEPENDENCIES)) ?dp"
  have A: "(b \<longleftrightarrow> (\<exists>d\<in>set DEPENDENCIES. \<not> os_path_exists E
                      (os_path_join E (deps_dir G) (fst d @ ''-'' @ version (snd d)))))
        \<and> calls as =
            (if b then [(UrlRetrieve ?u ?tmp, None), (ZipExtractall ?tmp ?dp, None),
                        (OsRemove ?tmp, None), (WindowAfterDestroy, None)]
             else [])"
    if h: "ensure_dependencies E G sp = (as, sp', Inr b)" for as sp' b
  proof -
    have f: "b = (\<exists>d\<in>set DEPENDENCIES. \<not> os_path_exists E
                      (os_path_join E (deps_dir G) (fst d @ ''-'' @ version (snd d))))"
      using h by (rule ensure_dependencies_flag)
    then have b: "b = (\<not> os_path_exists E ?dp)"
      by (simp add: DEPENDENCIES_def pyinstaller_dep_path_def)
    have s: "snd (provision E G sp) = (if b then Return else Continue)"
      using h by (simp add: provision_snd_ensure)
    have c: "calls as = calls (fst (provision E G sp))"
      using h by (simp add: provision_fst)
    have "calls as =
            (if b then [(UrlRetrieve ?u ?tmp, None), (ZipExtractall ?tmp ?dp, None),
                        (OsRemove ?tmp, None), (WindowAfterDestroy, None)]
             else [])"
      using s b unfolding c
      by (auto simp: provision_calls provision_snd install_try_calls install_try_snd Let_def
               split: if_splits option.splits outcome.splits)
    with f show ?thesis by blast
  qed
  have B: "run E G sp = Logger INFO ''Starting app conversion'' # fst (ensure_dependencies E G sp)
                        @ [Put (''done'', PNone)]
        \<and> snd (convert_app E G sp) = Return"
    if h: "snd (snd (ensure_dependencies E G sp)) = Inr True"
  proof -
    have "snd (provision E G sp) = Return"
      using h by (simp add: provision_snd_ensure)
    then have "convert_try E G sp =
        (Logger INFO ''Starting app conversion'' # fst (ensure_dependencies E G sp), Return)"
      by (simp add: convert_try_provision_stops provision_fst)
    then show ?thesis
      by (simp add: run_eq convert_app_snd)
  qed
  have C: "snd (snd (ensure_dependencies E G sp)) = Inl (Exc m)
        \<and> puts (run E G sp) =
            [(''log'', PStr (''ERROR: An error occurred: '' @ m)),
             (''error'', PStr (''An error occurred: '' @ m)),
             (''done'', PNone)]
        \<and> snd (convert_app E G sp) = Continue"
    if h: "\<not> os_path_exists E ?dp
             \<and> (urlretrieve E ?u ?tmp = Some (Exc m)
                \<or> urlretrieve E ?u ?tmp = None \<and> zip_extractall E ?tmp ?dp = Some (Exc m))" for m
  proof -
    have i: "snd ?it = Raise (Exc m)"
      using h by (auto simp: install_try_snd Let_def)
    have e: "snd (snd (ensure_dependencies E G sp)) = Inl (Exc m)"
      using h i by (simp add: ensure_dependencies_absent)
    then have p: "snd (provision E G sp) = Raise (Exc m)"
      by (simp add: provision_snd_ensure)
    then have "snd (convert_try E G sp) = Raise (Exc m)" "puts (fst (convert_try E G sp)) = []"
      by (simp_all add: convert_try_provision_stops)
    with e show ?thesis
      by (simp add: run_puts convert_app_snd)
  qed
  from A B C show ?thesis
    unfolding Let_def by blast
qed

theorem provisioner_contract_witness:
  "ensure_dependencies env_deps_absent demo_gui [] =
     (fst (ensure_dependencies env_deps_absent demo_gui []),
      fst (snd (ensure_dependencies env_deps_absent demo_gui [])), Inr True)
   \<and> calls (fst (ensure_dependencies env_deps_absent demo_gui [])) =
       [(UrlRetrieve (url (snd (hd DEPENDENCIES)))
           (os_path_join env_deps_absent (tempfile_gettempdir env_deps_absent) ''pyinstaller.tar.gz''), None),
        (ZipExtractall
           (os_path_join env_deps_absent (tempfile_gettempdir env_deps_absent) ''pyinstaller.tar.gz'')
           (pyinstaller_dep_path env_deps_absent demo_gui), None),
        (OsRemove
           (os_path_join env_deps_absent (tempfile_gettempdir env_deps_absent) ''pyinstaller.tar.gz''), None),
        (WindowAfterDestroy, None)]
   \<and> snd (snd (ensure_dependencies env_deps_absent demo_gui [])) = Inr True
   \<and> snd (convert_app env_deps_absent demo_gui []) = Return
   \<and> (\<not> os_path_exists env_download_fails (pyinstaller_dep_path env_download_fails demo_gui)
      \<and> (urlretrieve env_download_fails (url (snd (hd DEPENDENCIES)))
           (os_path_join env_download_fails (tempfile_gettempdir env_download_fails) ''pyinstaller.tar.gz'')
          = Some (Exc ''offline'')
         \<or> urlretrieve env_download_fails (url (snd (hd DEPENDENCIES)))
           (os_path_join env_download_fails (tempfile_gettempdir env_download_fails) ''pyinstaller.tar.gz'')
          = None
           \<and> zip_extractall env_download_fails
               (os_path_join env_download_fails (tempfile_gettempdir env_download_fails) ''pyinstaller.tar.gz'')
               (pyinstaller_dep_path env_download_fails demo_gui)
             = Some (Exc ''offline'')))
   \<and> puts (run env_download_fails demo_gui []) =
       [(''log'', PStr (''ERROR: An error occurred: '' @ ''offline'')),
        (''error'', PStr (''An error occurred: '' @ ''offline'')),
        (''done'', PNone)]"
proof -
  have h1: "ensure_dependencies env_deps_absent demo_gui [] =
     (fst (ensure_dependencies env_deps_absent demo_gui []),
      fst (snd (ensure_dependencies env_deps_absent demo_gui [])), Inr True)"
    using demo_deps_absent_result by (simp add: prod_eq_iff)
  have c1: "calls (fst (ensure_dependencies env_deps_absent demo_gui [])) =
       [(UrlRetrieve (url (snd (hd DEPENDENCIES)))
           (os_path_join env_deps_absent (tempfile_gettempdir env_deps_absent) ''pyinstaller.tar.gz''), None),
        (ZipExtractall
           (os_path_join env_deps_absent (tempfile_gettempdir env_deps_absent) ''pyinstaller.tar.gz'')
           (pyinstaller_dep_path env_deps_absent demo_gui), None),
        (OsRemove
           (os_path_join env_deps_absent (tempfile_gettempdir env_deps_absent) ''pyinstaller.tar.gz''), None),
        (WindowAfterDestroy, None)]"
    using provisioner_contract [of env_deps_absent demo_gui "[]", unfolded Let_def,
            THEN conjunct1, THEN spec, THEN spec, THEN spec, THEN mp, OF h1, THEN conjunct2]
    by simp
  have h2: "snd (snd (ensure_dependencies env_deps_absent demo_gui [])) = Inr True"
    by (rule demo_deps_absent_result)
  have c2: "snd (convert_app env_deps_absent demo_gui []) = Return"
    by (rule provisioner_contract [of env_deps_absent demo_gui "[]", unfolded Let_def,
              THEN conjunct2, THEN conjunct1, THEN mp, OF h2, THEN conjunct2])
  have h3: "\<not> os_path_exists env_download_fails (pyinstaller_dep_path env_download_fails demo_gui)
      \<and> (urlretrieve env_download_fails (url (snd (hd DEPENDENCIES)))
           (os_path_join env_download_fails (tempfile_gettempdir env_download_fails) ''pyinstaller.tar.gz'')
          = Some (Exc ''offline'')
         \<or> urlretrieve env_download_fails (url (snd (hd DEPENDENCIES)))
           (os_path_join env_download_fails (tempfile_gettempdir env_download_fails) ''pyinstaller.tar.gz'')
          = None
           \<and> zip_extractall env_download_fails
               (os_path_join env_download_fails (tempfile_gettempdir env_download_fails) ''pyinstaller.tar.gz'')
               (pyinstaller_dep_path env_download_fails demo_gui)
             = Some (Exc ''offline''))"
    by (simp add: env_download_fails_def demo_env_def)
  have c3: "puts (run env_download_fails demo_gui []) =
       [(''log'', PStr (''ERROR: An error occurred: '' @ ''offline'')),
        (''error'', PStr (''An error occurred: '' @ ''offline'')),
        (''done'', PNone)]"
    by (rule provisioner_contract [of env_download_fails demo_gui "[]", unfolded Let_def,
              THEN conjunct2, THEN conjunct2, THEN spec, THEN mp, OF h3,
              THEN conjunct2, THEN conjunct1])
  show ?thesis
    by (rule h1 c1 h2 c2 h3 c3 conjI)+
qed

subsection \<open>C7: the progress milestones of a successful conversion\<close>

text \<open>
  C7: in a run that enqueues the success event and in which no outside call raises, the
  events other than log lines are exactly the progress values 0, 20, 40, 60, 80, 100, in
  this order, then the success event, then \<^verbatim>\<open>done\<close>.
\<close>

theorem progress_milestones:
  assumes "\<exists>m. (''success'', m) \<in> set (puts (run E G sp))"
    and "\<forall>x\<in>set (calls (run E G sp)). snd x = None"
  shows "filter (\<lambda>ev. fst ev \<noteq> ''log'') (puts (run E G sp)) =
           [(''progress'', PInt 0), (''progress'', PInt 20), (''progress'', PInt 40),
            (''progress'', PInt 60), (''progress'', PInt 80), (''progress'', PInt 100),
            (''success'',
             PStr (''Folder converted to single EXE successfully!\<newline>Output location: ''
                   @ strip (output_path G))),
            (''done'', PNone)]"
proof (cases rule: run_cases [of E G sp])
  case stopped
  with assms(1) show ?thesis by blast
next
  case (found mf py)
  let ?src = "strip (source_path G)" and ?out = "strip (output_path G)"
  let ?ts = "os_path_join E ?src ''launcher.py''"
  from assms(1) obtain m where "(''success'', m) \<in> set (puts (run E G sp))" by blast
  then have "(''success'', m) \<in> set (puts (fst (convert_found E G ?src ?out mf py)))"
    by (auto simp: found(2) split: outcome.splits exn.splits)
  from found_success_reached [OF this]
  have r: "snd (prepare_output E ?out) = Continue"
    "snd (write_launcher E ?ts mf py) = Continue"
    "snd (bundle_try E G ?ts ?src ?out) = Continue" by simp_all
  have "\<forall>x\<in>set (calls (fst (cleanup_try E ?ts ?out))). snd x = None"
    using assms(2) found(1) found_calls_reached_cleanup [OF r] by auto
  then have c: "snd (cleanup_try E ?ts ?out) = Continue" by (rule cleanup_all_ok)
  show ?thesis
    by (simp add: found(2) found_all_ok_puts [OF r c])
qed

theorem progress_milestones_witness:
  "(\<exists>m. (''success'', m) \<in> set (puts (run demo_env demo_gui [])))
   \<and> map snd (calls (run demo_env demo_gui [])) = [None, None, None, None, None, None]
   \<and> filter (\<lambda>ev. fst ev \<noteq> ''log'') (puts (run demo_env demo_gui [])) =
       [(''progress'', PInt 0), (''progress'', PInt 20), (''progress'', PInt 40),
        (''progress'', PInt 60), (''progress'', PInt 80), (''progress'', PInt 100),
        (''success'',
         PStr (''Folder converted to single EXE successfully!\<newline>Output location: ''
               @ strip (output_path demo_gui))),
        (''done'', PNone)]"
proof -
  have h1: "\<exists>m. (''success'', m) \<in> set (puts (run demo_env demo_gui []))"
    by (simp add: demo_ok_puts)
  have h2: "\<forall>x\<in>set (calls (run demo_env demo_gui [])). snd x = None"
    by (simp add: demo_ok_calls)
  have c: "filter (\<lambda>ev. fst ev \<noteq> ''log'') (puts (run demo_env demo_gui [])) =
       [(''progress'', PInt 0), (''progress'', PInt 20), (''progress'', PInt 40),
        (''progress'', PInt 60), (''progress'', PInt 80), (''progress'', PInt 100),
        (''success'',
         PStr (''Folder converted to single EXE successfully!\<newline>Output location: ''
               @ strip (output_path demo_gui))),
        (''done'', PNone)]"
    by (rule progress_milestones [OF h1 h2])
  have e2: "map snd (calls (run demo_env demo_gui [])) = [None, None, None, None, None, None]"
    by (simp add: demo_ok_calls)
  show ?thesis
    by (rule h1 e2 c conjI)+
qed

subsection \<open>C8: a failing cleanup\<close>

text \<open>
  C8: in a run in which the bundler returned and an outside call then raised an
  \<^verbatim>\<open>Exception\<close> (it can only be one of the deletions of the cleanup block), the failure is
  logged at level \<^verbatim>\<open>WARNING\<close>, the log holds no record of level \<^verbatim>\<open>ERROR\<close>, the events other
  than log lines are the progress values 0 to 80, the success event and \<^verbatim>\<open>done\<close> (so there
  is no error event), and the worker ends normally.
\<close>

theorem cleanup_failure_is_warning:
  assumes "(PyInstallerRun a, None) \<in> set (calls (run E G sp))"
    and "(c, Some (Exc m)) \<in> set (calls (run E G sp))"
  shows "Logger WARNING (''Failed to clean up temporary files: '' @ m) \<in> set (run E G sp)
       \<and> (\<forall>x\<in>set (logged (run E G sp)). fst x \<noteq> ERROR)
       \<and> filter (\<lambda>ev. fst ev \<noteq> ''log'') (puts (run E G sp)) =
           [(''progress'', PInt 0), (''progress'', PInt 20), (''progress'', PInt 40),
            (''progress'', PInt 60), (''progress'', PInt 80),
            (''success'',
             PStr (''Folder converted to single EXE successfully!\<newline>Output location: ''
                   @ strip (output_path G))),
            (''done'', PNone)]
       \<and> snd (convert_app E G sp) = Continue"
proof (cases rule: run_cases [of E G sp])
  case stopped
  with assms(1) show ?thesis by (auto dest: provision_calls_kinds)
next
  case (found mf py)
  let ?src = "strip (source_path G)" and ?out = "strip (output_path G)"
  let ?ts = "os_path_join E ?src ''launcher.py''"
  have b: "(PyInstallerRun a, None) \<in> set (calls (fst (convert_found E G ?src ?out mf py)))"
    using assms(1) found(1) by simp
  note r = found_bundled_reached [OF b]
  have "(c, Some (Exc m)) \<in> set (calls (fst (cleanup_try E ?ts ?out)))"
    using assms(2) found(1) by (intro found_raise_in_cleanup [OF r]) simp
  then have ct: "snd (cleanup_try E ?ts ?out) = Raise (Exc m)"
    by (rule cleanup_raises) simp
  have w: "Logger WARNING (''Failed to clean up temporary files: '' @ m) \<in> set (run E G sp)"
    using cleanup_stage_warning [OF ct] found_reached_cleanup(1) [OF r] found(4) by blast
  note p = found_cleanup_failed_puts [OF r ct]
  have q: "quiet (run E G sp)"
    using found(5) found_reached_cleanup(2) [OF r] p(2) by simp
  show ?thesis
    using w q by (simp add: found(2,3) p quiet_def)
qed

theorem cleanup_failure_is_warning_witness:
  "(PyInstallerRun [''src/launcher.py'', ''--distpath'', ''out'', ''--workpath'', ''out/build'',
                    ''--specpath'', ''out'', ''--onefile'', ''--add-data'', ''src/*;.''], None)
     \<in> set (calls (run env_cleanup_fails demo_gui []))
   \<and> (OsRemove ''src/launcher.py'', Some (Exc ''busy''))
       \<in> set (calls (run env_cleanup_fails demo_gui []))
   \<and> Logger WARNING (''Failed to clean up temporary files: '' @ ''busy'')
       \<in> set (run env_cleanup_fails demo_gui [])
   \<and> snd (convert_app env_cleanup_fails demo_gui []) = Continue"
proof -
  have h1: "(PyInstallerRun [''src/launcher.py'', ''--distpath'', ''out'', ''--workpath'', ''out/build'',
                    ''--specpath'', ''out'', ''--onefile'', ''--add-data'', ''src/*;.''], None)
     \<in> set (calls (run env_cleanup_fails demo_gui []))"
    by (simp add: demo_cleanup_fails_calls)
  have h2: "(OsRemove ''src/launcher.py'', Some (Exc ''busy''))
       \<in> set (calls (run env_cleanup_fails demo_gui []))"
    by (simp add: demo_cleanup_fails_calls)
  have c1: "Logger WARNING (''Failed to clean up temporary files: '' @ ''busy'')
       \<in> set (run env_cleanup_fails demo_gui [])"
    by (rule cleanup_failure_is_warning [OF h1 h2, THEN conjunct1])
  have c2: "snd (convert_app env_cleanup_fails demo_gui []) = Continue"
    by (rule cleanup_failure_is_warning [OF h1 h2, THEN conjunct2, THEN conjunct2, THEN conjunct2])
  show ?thesis
    by (rule h1 h2 c1 c2 conjI)+
qed

subsection \<open>C9: the stub lies in the source directory\<close>



subsection \<open>C10: the scanner does not look at the kind of an entry\<close>

text \<open>
  C10: the worker reads the names of the directory entries and nothing else about them.
  Whatever kinds the entries of the file system have, a run is the same run when every
  entry is given another kind (\<open>kind d n k\<close> for the entry \<open>n\<close> of kind \<open>k\<close> in the
  directory \<open>d\<close>).  In a run that reaches the scan, an entry \<open>(n, k)\<close> of any kind \<open>k\<close>, a
  directory as well as a file, is the target when \<open>n\<close> ends in \<^verbatim>\<open>.exe\<close> and no earlier
  name does, or when \<open>n\<close> ends in \<^verbatim>\<open>.py\<close>, no earlier name does and no name ends in
  \<^verbatim>\<open>.exe\<close>: the run announces it as found and goes through the later stages with it.
\<close>

theorem scanner_ignores_entry_kind:
  "run (E\<lparr>dir_entries := \<lambda>d. case dir_entries E d of
                                   Inl e \<Rightarrow> Inl e
                                 | Inr ents \<Rightarrow> Inr (map (\<lambda>(n, k). (n, kind d n k)) ents)\<rparr>) G sp
     = run E G sp
   \<and> (os_path_exists E (pyinstaller_dep_path E G) \<and> strip (source_path G) \<noteq> []
        \<and> strip (output_path G) \<noteq> [] \<and> os_path_exists E (strip (source_path G))
        \<and> dir_entries E (strip (source_path G)) = Inr (pre @ (n, k) # post)
        \<and> endswith n ''.exe'' \<and> (\<forall>e\<in>set pre. \<not> endswith (fst e) ''.exe'') \<longrightarrow>
      Put (''log'', PStr (''Found EXE file: '' @ os_path_join E (strip (source_path G)) n))
        \<in> set (run E G sp)
      \<and> calls (run E G sp)
          = calls (fst (convert_found E G (strip (source_path G)) (strip (output_path G))
                          (os_path_join E (strip (source_path G)) n) False)))
   \<and> (os_path_exists E (pyinstaller_dep_path E G) \<and> strip (source_path G) \<noteq> []
        \<and> strip (output_path G) \<noteq> [] \<and> os_path_exists E (strip (source_path G))
        \<and> dir_entries E (strip (source_path G)) = Inr (pre @ (n, k) # post)
        \<and> endswith n ''.py'' \<and> (\<forall>e\<in>set pre. \<not> endswith (fst e) ''.py'')
        \<and> (\<forall>e\<in>set (pre @ (n, k) # post). \<not> endswith (fst e) ''.exe'') \<longrightarrow>
      Put (''log'', PStr (''Found Python file: '' @ os_path_join E (strip (source_path G)) n))
        \<in> set (run E G sp)
      \<and> calls (run E G sp)
          = calls (fst (convert_found E G (strip (source_path G)) (strip (output_path G))
                          (os_path_join E (strip (source_path G)) n) True)))"
proof -
  let ?src = "strip (source_path G)"
  let ?names = "map fst pre @ n # map fst post"
  have l: "os_listdir E ?src = Inr ?names"
    if "dir_entries E ?src = Inr (pre @ (n, k) # post)"
    using that by (simp add: os_listdir_def)
  have 1: "Put (''log'', PStr (''Found EXE file: '' @ os_path_join E ?src n)) \<in> set (run E G sp)
      \<and> calls (run E G sp)
          = calls (fst (convert_found E G ?src (strip (output_path G)) (os_path_join E ?src n) False))"
    if h: "os_path_exists E (pyinstaller_dep_path E G)" "?src \<noteq> []"
      "strip (output_path G) \<noteq> []" "os_path_exists E ?src"
      "dir_entries E ?src = Inr (pre @ (n, k) # post)"
      "endswith n ''.exe''" "\<forall>e\<in>set pre. \<not> endswith (fst e) ''.exe''"
  proof (rule run_target_exe [OF h(1-4) l [OF h(5)] refl h(6)])
    show "\<forall>f\<in>set (map fst pre). \<not> endswith f ''.exe''"
      using h(7) by simp
  qed
  have 2: "Put (''log'', PStr (''Found Python file: '' @ os_path_join E ?src n)) \<in> set (run E G sp)
      \<and> calls (run E G sp)
          = calls (fst (convert_found E G ?src (strip (output_path G)) (os_path_join E ?src n) True))"
    if h: "os_path_exists E (pyinstaller_dep_path E G)" "?src \<noteq> []"
      "strip (output_path G) \<noteq> []" "os_path_exists E ?src"
      "dir_entries E ?src = Inr (pre @ (n, k) # post)"
      "endswith n ''.py''" "\<forall>e\<in>set pre. \<not> endswith (fst e) ''.py''"
      "\<forall>e\<in>set (pre @ (n, k) # post). \<not> endswith (fst e) ''.exe''"
  proof (rule run_target_py [OF h(1-4) l [OF h(5)] refl h(6)])
    show "\<forall>f\<in>set (map fst pre). \<not> endswith f ''.py''"
      using h(7) by simp
    show "\<forall>f\<in>set ?names. \<not> endswith f ''.exe''"
      using h(8) by auto
  qed
  from 1 2 show ?thesis
    unfolding run_relabel by blast
qed

theorem scanner_ignores_entry_kind_witness:
  "os_path_exists env_script_dir (pyinstaller_dep_path env_script_dir demo_gui)
   \<and> strip (source_path demo_gui) = ''src'' \<and> strip (output_path demo_gui) = ''out''
   \<and> os_path_exists env_script_dir ''src''
   \<and> dir_entries env_script_dir ''src''
       = Inr ([(''data.txt'', RegularFile)] @ (''pkg.py'', Directory) # [])
   \<and> endswith ''pkg.py'' ''.py'' \<and> \<not> endswith ''data.txt'' ''.py''
   \<and> \<not> endswith ''data.txt'' ''.exe'' \<and> \<not> endswith ''pkg.py'' ''.exe''
   \<and> Put (''log'', PStr ''Found Python file: src/pkg.py'') \<in> set (run env_script_dir demo_gui [])
   \<and> calls (run env_script_dir demo_gui [])
       = calls (fst (convert_found env_script_dir demo_gui ''src'' ''out'' ''src/pkg.py'' True))
   \<and> (OpenWrite ''src/launcher.py'' (launcher_text True ''pkg.py''), None)
       \<in> set (calls (run env_script_dir demo_gui []))"
proof -
  have s: "strip (source_path demo_gui) = ''src''" "strip (output_path demo_gui) = ''out''"
    by (simp_all add: demo_gui_def)
  have j: "os_path_join env_script_dir ''src'' ''pkg.py'' = ''src/pkg.py''"
    by (simp add: env_script_dir_def demo_env_def demo_join_def)
  have e: "os_path_exists env_script_dir (pyinstaller_dep_path env_script_dir demo_gui)"
    "os_path_exists env_script_dir ''src''"
    by (simp_all add: env_script_dir_def demo_env_def)
  have d: "dir_entries env_script_dir ''src''
       = Inr ([(''data.txt'', RegularFile)] @ (''pkg.py'', Directory) # [])"
    by (simp add: env_script_dir_def demo_env_def)
  have n: "endswith ''pkg.py'' ''.py''" "\<not> endswith ''data.txt'' ''.py''"
    "\<not> endswith ''data.txt'' ''.exe''" "\<not> endswith ''pkg.py'' ''.exe''"
    by (simp_all add: endswith_def suffix_to_prefix)
  have h: "os_path_exists env_script_dir (pyinstaller_dep_path env_script_dir demo_gui)
        \<and> strip (source_path demo_gui) \<noteq> []
        \<and> strip (output_path demo_gui) \<noteq> [] \<and> os_path_exists env_script_dir (strip (source_path demo_gui))
        \<and> dir_entries env_script_dir (strip (source_path demo_gui))
            = Inr ([(''data.txt'', RegularFile)] @ (''pkg.py'', Directory) # [])
        \<and> endswith ''pkg.py'' ''.py''
        \<and> (\<forall>e\<in>set [(''data.txt'', RegularFile)]. \<not> endswith (fst e) ''.py'')
        \<and> (\<forall>e\<in>set ([(''data.txt'', RegularFile)] @ (''pkg.py'', Directory) # []).
              \<not> endswith (fst e) ''.exe'')"
    unfolding s using e d n by simp
  note c = scanner_ignores_entry_kind [THEN conjunct2, THEN conjunct2, THEN mp, OF h,
             unfolded s j]
  have w: "(OpenWrite ''src/launcher.py'' (launcher_text True ''pkg.py''), None)
       \<in> set (calls (run env_script_dir demo_gui []))"
    by (simp add: demo_script_dir_calls)
  have c1: "Put (''log'', PStr ''Found Python file: src/pkg.py'')
              \<in> set (run env_script_dir demo_gui [])"
    using c [THEN conjunct1] by simp
  have c2: "calls (run env_script_dir demo_gui [])
       = calls (fst (convert_found env_script_dir demo_gui ''src'' ''out'' ''src/pkg.py'' True))"
    by (rule c [THEN conjunct2])
  show ?thesis
    by (rule e s d n c1 c2 w conjI)+
qed

end
